(* ===== verification/Prelude.thy ===== *)
theory Prelude
  imports Main "HOL-Library.Sublist" "HOL-Library.Word" "HOL-Library.Multiset"
begin

text \<open>
  Shared vocabulary of the development: the byte type of uploaded files, the
  characters that the template literals of \<^verbatim>\<open>src/index.js\<close> contain
  (newline and indentation), the collections of rewrite rules the component
  theories fill, and generic facts on lists and infixes (\<open>sublist\<close>) that the
  rendering proofs share.
\<close>

section \<open>Collections\<close>

named_theorems render_simps "unfolding rules of the HTML and subject templates"
named_theorems handler_simps "unfolding rules of the request handlers"

section \<open>Types\<close>

type_synonym byte = "8 word"
type_synonym bytes = "byte list"

section \<open>Characters of the template literals\<close>

text \<open>
  A JavaScript template literal that spans several lines contains the line
  breaks and the indentation of the source text. \<open>nl\<close> is the line feed and
  \<open>spaces n\<close> the \<open>n\<close> blanks at the start of the next line.
\<close>

definition nl :: string where
  "nl = [CHR 0x0A]"

definition spaces :: "nat \<Rightarrow> string" where
  "spaces n = replicate n (CHR '' '')"

text \<open>The double quote character, which an inner string literal cannot spell.\<close>

definition dq :: string where
  "dq = [CHR 0x22]"

section \<open>Generic facts on infixes\<close>

lemma sublist_append_mid [intro]:
  "sublist xs ys \<Longrightarrow> sublist xs (ps @ ys @ ss)"
  unfolding sublist_def by (metis append.assoc)

lemma sublist_append_l [intro]:
  "sublist xs ys \<Longrightarrow> sublist xs (ps @ ys)"
  using sublist_append_mid [of xs ys ps "[]"] by simp

lemma sublist_append_r [intro]:
  "sublist xs ys \<Longrightarrow> sublist xs (ys @ ss)"
  using sublist_append_mid [of xs ys "[]" ss] by simp

lemma sublist_Cons_l [intro]:
  "sublist xs ys \<Longrightarrow> sublist xs (y # ys)"
  using sublist_append_l [of xs ys "[y]"] by simp

text \<open>Conditional rewrite rules that skip a known prefix while looking for an infix.\<close>

lemmas sublist_skip = sublist_append_l sublist_Cons_l

lemma sublist_self_mid [simp]:
  "sublist xs (ps @ xs @ ss)"
  by (rule sublist_appendI)

lemma sublist_Cons_mid [simp]:
  "sublist xs (p # ps @ xs @ ss)"
  using sublist_append_mid [of xs xs "p # ps" ss] by simp

lemma sublist_triple [intro]:
  "sublist (a @ b @ c) (a @ b @ c @ d)"
  using sublist_appendI [of "a @ b @ c" "[]" d] by simp

section \<open>Sums over an updated list\<close>

text \<open>Replacing one element of a list changes a sum over it by that element only.\<close>

lemma sum_list_map_update:
  fixes f :: "'a \<Rightarrow> 'b::comm_monoid_add"
  assumes "i < length xs"
  shows "sum_list (map f (xs[i := x])) + f (xs ! i) = sum_list (map f xs) + f x"
  using assms
proof (induction xs arbitrary: i)
  case Nil
  then show ?case by simp
next
  case (Cons y ys)
  then show ?case by (cases i) (simp_all add: ac_simps)
qed

lemma nl_not_space [simp]: "nl \<noteq> spaces (Suc n)"
  by (simp add: nl_def spaces_def)

lemma length_nl [simp]: "length nl = 1"
  by (simp add: nl_def)

end
