(* ===== verification/Js_Values.thy ===== *)
theory Js_Values
  imports Prelude
begin

text \<open>
  The JavaScript values a request body carries (the result of
  \<^verbatim>\<open>JSON.parse\<close> in \<^verbatim>\<open>express.json()\<close>, or the text fields of a multipart form
  after multer), and the three operations of the language that
  \<^verbatim>\<open>src/index.js\<close> applies to them: property lookup in the destructuring
  \<^verbatim>\<open>const {firstName, ...} = req.body\<close>, truthiness in the guard
  \<^verbatim>\<open>!firstName || ...\<close>, and the string conversion of a template literal
  \<^verbatim>\<open>`... ${firstName} ...`\<close>. Numbers are modelled as integers: the JSON
  numbers that matter here (a phone number sent as a number) are integral.
\<close>

section \<open>Values\<close>

datatype jsval =
    JUndef
  | JNull
  | JBool bool
  | JNum int
  | JStr string
  | JArr "jsval list"
  | JObj "(string \<times> jsval) list"

section \<open>Truthiness (ToBoolean)\<close>

text \<open>\<^verbatim>\<open>!x\<close> is true exactly for the falsy values: undefined, null, false, 0 and the
  empty string; every array and object is truthy, also an empty one.\<close>

fun truthy :: "jsval \<Rightarrow> bool" where
  "truthy JUndef = False"
| "truthy JNull = False"
| "truthy (JBool b) = b"
| "truthy (JNum n) = (n \<noteq> 0)"
| "truthy (JStr s) = (s \<noteq> [])"
| "truthy (JArr vs) = True"
| "truthy (JObj kvs) = True"

section \<open>Decimal printing of numbers\<close>

definition digit_chr :: "nat \<Rightarrow> char" where
  "digit_chr d = char_of (48 + d)"

fun nat_str :: "nat \<Rightarrow> string" where
  "nat_str n = (if n < 10 then [digit_chr n] else nat_str (n div 10) @ [digit_chr (n mod 10)])"

declare nat_str.simps [simp del]

definition int_str :: "int \<Rightarrow> string" where
  "int_str i = (if i < 0 then CHR ''-'' # nat_str (nat (- i)) else nat_str (nat i))"

section \<open>String conversion (ToString)\<close>

text \<open>\<^verbatim>\<open>Array.prototype.join\<close> with its default separator.\<close>

fun join_comma :: "string list \<Rightarrow> string" where
  "join_comma [] = []"
| "join_comma [s] = s"
| "join_comma (s # ss) = s @ '','' @ join_comma ss"

text \<open>
  The conversion a template literal applies to an interpolated value. An array
  converts as \<^verbatim>\<open>Array.prototype.join(",")\<close>, in which undefined and null
  elements become the empty string; a plain object converts to
  \<^verbatim>\<open>[object Object]\<close>.
\<close>

fun js_to_string :: "jsval \<Rightarrow> string" where
  "js_to_string JUndef = ''undefined''"
| "js_to_string JNull = ''null''"
| "js_to_string (JBool b) = (if b then ''true'' else ''false'')"
| "js_to_string (JNum n) = int_str n"
| "js_to_string (JStr s) = s"
| "js_to_string (JArr vs) =
     join_comma (map (\<lambda>v. if v = JUndef \<or> v = JNull then [] else js_to_string v) vs)"
| "js_to_string (JObj kvs) = ''[object Object]''"

section \<open>Property lookup\<close>

text \<open>
  \<^verbatim>\<open>obj.key\<close> on an object: \<^verbatim>\<open>JSON.parse\<close> keeps the last of duplicate keys,
  so the binding that counts is the last one in the list; a missing key is
  undefined. An array has none of the property names the handlers read.
  \<^verbatim>\<open>express.json()\<close> and multer only produce objects and arrays as
  \<^verbatim>\<open>req.body\<close>, so the TypeError of destructuring null or undefined does
  not arise; a primitive has none of these properties either.
\<close>

fun get_prop :: "jsval \<Rightarrow> string \<Rightarrow> jsval" where
  "get_prop (JObj kvs) k = (case map_of (rev kvs) k of None \<Rightarrow> JUndef | Some v \<Rightarrow> v)"
| "get_prop v k = JUndef"

section \<open>Lemmas\<close>

lemma truthy_JStr_Cons [simp]: "truthy (JStr (c # cs))"
  by simp

lemma get_prop_last [simp]:
  "get_prop (JObj (kvs @ [(k, v)])) k = v"
  by simp

lemma get_prop_Cons_other [simp]:
  "k' \<noteq> k \<Longrightarrow> get_prop (JObj ((k', v) # kvs)) k = get_prop (JObj kvs) k"
  by (auto split: option.splits)

lemma nat_str_nonempty [simp]: "nat_str n \<noteq> []"
  by (subst nat_str.simps) simp

end
