(* ===== verification/Mail.thy ===== *)
theory Mail
  imports Js_Values
begin

text \<open>
  The mail composer of \<^verbatim>\<open>src/index.js\<close>: the process configuration read
  from the environment (\<^verbatim>\<open>dotenv.config()\<close>, \<^verbatim>\<open>process.env\<close>), the
  transporter configuration (\<^verbatim>\<open>nodemailer.createTransport\<close>), and the four
  message objects the handlers pass to \<^verbatim>\<open>transporter.sendMail\<close>, each with
  its subject and its HTML template literal reproduced character by character
  (line breaks and indentation included). A field value enters a template
  through \<open>js_to_string\<close>, unescaped.
\<close>

section \<open>Configuration\<close>

text \<open>\<^verbatim>\<open>process.env\<close> after \<^verbatim>\<open>dotenv.config()\<close>: each variable may be unset.\<close>

record env =
  EMAIL_USER :: "string option"
  EMAIL_PASS :: "string option"
  PORT :: "string option"
  NODE_ENV :: "string option"

record transport_config =
  service :: string
  auth_user :: "string option"
  auth_pass :: "string option"

definition create_transport :: "env \<Rightarrow> transport_config" where
  "create_transport e = \<lparr>service = ''gmail'', auth_user = EMAIL_USER e, auth_pass = EMAIL_PASS e\<rparr>"

section \<open>Messages\<close>

text \<open>
  The options object of \<^verbatim>\<open>sendMail\<close>. \<^verbatim>\<open>from\<close> is \<^verbatim>\<open>process.env.EMAIL_USER\<close>,
  possibly unset; \<^verbatim>\<open>to\<close> is whatever value the request carried (the
  submitter's \<^verbatim>\<open>email\<close>), not necessarily a string; a message without an
  \<^verbatim>\<open>attachments\<close> key has the empty list.
\<close>

record attachment =
  filename :: string
  content :: bytes
  contentType :: string

record mail =
  mail_from :: "string option"
  mail_to :: jsval
  subject :: string
  html :: string
  attachments :: "attachment list"

definition admin_address :: string where
  "admin_address = ''vasanthkbit@gmail.com''"

section \<open>Contact messages\<close>

definition contact_admin_html :: "jsval \<Rightarrow> jsval \<Rightarrow> jsval \<Rightarrow> jsval \<Rightarrow> string" where
  "contact_admin_html firstName email number message =
     nl @ spaces 8 @ ''<h3>New Contact Form Submission</h3>'' @ nl @
     spaces 8 @ ''<p><strong>Name:</strong> '' @ js_to_string firstName @ ''</p>'' @ nl @
     spaces 8 @ ''<p><strong>Email:</strong> '' @ js_to_string email @ ''</p>'' @ nl @
     spaces 8 @ ''<p><strong>number:</strong> '' @ js_to_string number @ ''</p>'' @ nl @
     spaces 8 @ ''<p><strong>Message:</strong> '' @ js_to_string message @ ''</p>'' @ nl @
     spaces 6"

definition contact_admin_mail :: "env \<Rightarrow> jsval \<Rightarrow> jsval \<Rightarrow> jsval \<Rightarrow> jsval \<Rightarrow> mail" where
  "contact_admin_mail e firstName email number message =
     \<lparr>mail_from = EMAIL_USER e,
      mail_to = JStr admin_address,
      subject = ''Contact Form Submission from '' @ js_to_string firstName,
      html = contact_admin_html firstName email number message,
      attachments = []\<rparr>"

definition contact_confirm_html :: "jsval \<Rightarrow> jsval \<Rightarrow> string" where
  "contact_confirm_html firstName message =
     nl @ spaces 8 @ ''<h3>Thank you for reaching out!</h3>'' @ nl @
     spaces 8 @ ''<p>Hello '' @ js_to_string firstName @ '',</p>'' @ nl @
     spaces 8 @ ''<p>We have received your message: <strong>'' @ js_to_string message @
       ''</strong>. We will get back to you soon!</p>'' @ nl @
     spaces 8 @ ''<p>Best regards,<br/>Your Team</p>'' @ nl @
     spaces 6"

definition contact_confirm_mail :: "env \<Rightarrow> jsval \<Rightarrow> jsval \<Rightarrow> jsval \<Rightarrow> mail" where
  "contact_confirm_mail e firstName email message =
     \<lparr>mail_from = EMAIL_USER e,
      mail_to = email,
      subject = ''Thank You for Contacting Us, '' @ js_to_string firstName,
      html = contact_confirm_html firstName message,
      attachments = []\<rparr>"

section \<open>Paper messages\<close>

text \<open>The file multer keeps in memory for \<^verbatim>\<open>upload.single('file')\<close> (\<^verbatim>\<open>req.file\<close>).\<close>

record upload =
  fieldname :: string
  originalname :: string
  mimetype :: string
  buffer :: bytes

definition paper_admin_html ::
  "jsval \<Rightarrow> jsval \<Rightarrow> jsval \<Rightarrow> jsval \<Rightarrow> jsval \<Rightarrow> jsval \<Rightarrow> string" where
  "paper_admin_html title fullName email institution category abstract =
     nl @ spaces 8 @ ''<h3>New Paper Submission</h3>'' @ nl @
     spaces 8 @ ''<p><strong>Title:</strong> '' @ js_to_string title @ ''</p>'' @ nl @
     spaces 8 @ ''<p><strong>Name:</strong> '' @ js_to_string fullName @ ''</p>'' @ nl @
     spaces 8 @ ''<p><strong>Email:</strong> '' @ js_to_string email @ ''</p>'' @ nl @
     spaces 8 @ ''<p><strong>Institution:</strong> '' @ js_to_string institution @ ''</p>'' @ nl @
     spaces 8 @ ''<p><strong>Author Category:</strong> '' @ js_to_string category @
       ''</p> <!-- Updated field name -->'' @ nl @
     spaces 8 @ ''<p><strong>Abstract:</strong> '' @ js_to_string abstract @
       ''</p> <!-- Updated field name -->'' @ nl @
     spaces 6"

definition pdf_attachment :: "upload \<Rightarrow> attachment" where
  "pdf_attachment file =
     \<lparr>filename = originalname file, content = buffer file, contentType = ''application/pdf''\<rparr>"

definition paper_admin_mail ::
  "env \<Rightarrow> jsval \<Rightarrow> jsval \<Rightarrow> jsval \<Rightarrow> jsval \<Rightarrow> jsval \<Rightarrow> jsval \<Rightarrow> upload \<Rightarrow> mail" where
  "paper_admin_mail e title email fullName institution category abstract file =
     \<lparr>mail_from = EMAIL_USER e,
      mail_to = JStr admin_address,
      subject = ''Paper Submission: '' @ js_to_string title,
      html = paper_admin_html title fullName email institution category abstract,
      attachments = [pdf_attachment file]\<rparr>"

definition paper_confirm_html :: "jsval \<Rightarrow> jsval \<Rightarrow> string" where
  "paper_confirm_html title fullName =
     nl @ spaces 8 @ ''<h3>Thank you for submitting your paper!</h3>'' @ nl @
     spaces 8 @ ''<p>Dear '' @ js_to_string fullName @ '',</p>'' @ nl @
     spaces 8 @ ''<p>We have successfully received your paper titled '' @ dq @ ''<strong>'' @
       js_to_string title @ ''</strong>'' @ dq @ ''.</p>'' @ nl @
     spaces 8 @ ''<p>Your submission will now go through the peer review process, and we will notify you about the status soon.</p>'' @ nl @
     spaces 8 @ ''<p>Best regards,<br/>Conference Team</p>'' @ nl @
     spaces 6"

definition paper_confirm_mail :: "env \<Rightarrow> jsval \<Rightarrow> jsval \<Rightarrow> jsval \<Rightarrow> mail" where
  "paper_confirm_mail e title email fullName =
     \<lparr>mail_from = EMAIL_USER e,
      mail_to = email,
      subject = ''Thank You for Your Paper Submission: '' @ js_to_string title,
      html = paper_confirm_html title fullName,
      attachments = []\<rparr>"

lemmas mail_defs [render_simps] =
  contact_admin_mail_def contact_confirm_mail_def paper_admin_mail_def paper_confirm_mail_def
  pdf_attachment_def

section \<open>Rendering lemmas\<close>

text \<open>Each interpolated value occurs verbatim in the body that interpolates it.\<close>

lemma contact_admin_html_fields:
  "sublist (js_to_string firstName) (contact_admin_html firstName email number message)"
  "sublist (js_to_string email) (contact_admin_html firstName email number message)"
  "sublist (js_to_string number) (contact_admin_html firstName email number message)"
  "sublist (js_to_string message) (contact_admin_html firstName email number message)"
  unfolding contact_admin_html_def by (rule sublist_append_rightI | rule sublist_append_l)+

lemma contact_confirm_html_fields:
  "sublist (js_to_string firstName) (contact_confirm_html firstName message)"
  "sublist (js_to_string message) (contact_confirm_html firstName message)"
  unfolding contact_confirm_html_def by (rule sublist_append_rightI | rule sublist_append_l)+

lemma paper_admin_html_fields:
  "sublist (js_to_string title) (paper_admin_html title fullName email institution category abstract)"
  "sublist (js_to_string fullName) (paper_admin_html title fullName email institution category abstract)"
  "sublist (js_to_string email) (paper_admin_html title fullName email institution category abstract)"
  "sublist (js_to_string institution) (paper_admin_html title fullName email institution category abstract)"
  "sublist (js_to_string category) (paper_admin_html title fullName email institution category abstract)"
  "sublist (js_to_string abstract) (paper_admin_html title fullName email institution category abstract)"
  unfolding paper_admin_html_def by (rule sublist_append_rightI | rule sublist_append_l)+

lemma paper_confirm_html_fields:
  "sublist (js_to_string title) (paper_confirm_html title fullName)"
  "sublist (js_to_string fullName) (paper_confirm_html title fullName)"
  unfolding paper_confirm_html_def by (rule sublist_append_rightI | rule sublist_append_l)+

text \<open>The message line of the admin notification, with its markup around the value.\<close>

lemma contact_admin_html_message_line:
  "sublist (''<p><strong>Message:</strong> '' @ js_to_string message @ ''</p>'')
     (contact_admin_html firstName email number message)"
  unfolding contact_admin_html_def by (rule sublist_triple | rule sublist_append_l)+

text \<open>C7: every field value of a contact submission appears verbatim (as its
  string conversion, unescaped) in the HTML of the messages that interpolate it:
  all four in the admin notification, the first name and the message in the
  confirmation.\<close>

theorem contact_fields_verbatim:
  "sublist (js_to_string firstName) (html (contact_admin_mail e firstName email number message)) \<and>
   sublist (js_to_string email) (html (contact_admin_mail e firstName email number message)) \<and>
   sublist (js_to_string number) (html (contact_admin_mail e firstName email number message)) \<and>
   sublist (js_to_string message) (html (contact_admin_mail e firstName email number message)) \<and>
   sublist (js_to_string firstName) (html (contact_confirm_mail e firstName email message)) \<and>
   sublist (js_to_string message) (html (contact_confirm_mail e firstName email message))"
  by (simp add: mail_defs contact_admin_html_fields contact_confirm_html_fields)

text \<open>C8: every field value of a paper submission appears verbatim in the admin
  notification, and the title and the author's name in the confirmation.\<close>

theorem paper_fields_verbatim:
  "sublist (js_to_string title) (html (paper_admin_mail e title email fullName institution category abstract file)) \<and>
   sublist (js_to_string fullName) (html (paper_admin_mail e title email fullName institution category abstract file)) \<and>
   sublist (js_to_string email) (html (paper_admin_mail e title email fullName institution category abstract file)) \<and>
   sublist (js_to_string institution) (html (paper_admin_mail e title email fullName institution category abstract file)) \<and>
   sublist (js_to_string category) (html (paper_admin_mail e title email fullName institution category abstract file)) \<and>
   sublist (js_to_string abstract) (html (paper_admin_mail e title email fullName institution category abstract file)) \<and>
   sublist (js_to_string title) (html (paper_confirm_mail e title email fullName)) \<and>
   sublist (js_to_string fullName) (html (paper_confirm_mail e title email fullName))"
  by (simp add: mail_defs paper_admin_html_fields paper_confirm_html_fields)

text \<open>Every subject ends with the interpolated value.\<close>

lemma mail_subject_suffix:
  "suffix (js_to_string firstName) (subject (contact_admin_mail e firstName email number message))"
  "suffix (js_to_string firstName) (subject (contact_confirm_mail e firstName email message))"
  "suffix (js_to_string title) (subject (paper_admin_mail e title email fullName institution category abstract file))"
  "suffix (js_to_string title) (subject (paper_confirm_mail e title email fullName))"
  by (simp_all add: mail_defs suffix_def)

end
