(* ===== verification/Address_Parser.thy ===== *)
theory Address_Parser
  imports Prelude
begin

text \<open>
  How nodemailer reads the addresses of a \<^verbatim>\<open>to\<close> string: a list separated by
  commas or semicolons, where a separator inside double quotes (a display name
  such as \<^verbatim>\<open>"Doe, Jane"\<close>) or inside angle brackets does not count; an
  entry of the form \<^verbatim>\<open>Name <address>\<close> gives the address between the
  brackets, any other entry the entry itself, without the white space around
  it; empty entries give nothing.
\<close>

section \<open>The scanner\<close>

datatype scan_mode = Plain | Quoted | Angle

definition is_ws :: "char \<Rightarrow> bool" where
  "is_ws c \<longleftrightarrow> c = CHR '' '' \<or> c = CHR 0x09 \<or> c = CHR 0x0A \<or> c = CHR 0x0D"

definition trim :: "string \<Rightarrow> string" where
  "trim s = rev (dropWhile is_ws (rev (dropWhile is_ws s)))"

text \<open>\<open>scan md tx ang s\<close>: the entries of \<open>s\<close>, each as the text read outside
  angle brackets and the text inside them, if any; \<open>tx\<close> and \<open>ang\<close> hold the
  current entry so far.\<close>

fun scan :: "scan_mode \<Rightarrow> string \<Rightarrow> string option \<Rightarrow> string \<Rightarrow> (string \<times> string option) list" where
  "scan md tx ang [] = [(tx, ang)]"
| "scan Plain tx ang (c # cs) =
     (if c = CHR '','' \<or> c = CHR '';'' then (tx, ang) # scan Plain [] None cs
      else if c = CHR ''<'' then scan Angle tx (Some []) cs
      else if c = CHR 0x22 then scan Quoted (tx @ [c]) ang cs
      else scan Plain (tx @ [c]) ang cs)"
| "scan Quoted tx ang (c # cs) = scan (if c = CHR 0x22 then Plain else Quoted) (tx @ [c]) ang cs"
| "scan Angle tx ang (c # cs) =
     (if c = CHR ''>'' then scan Plain tx ang cs
      else scan Angle tx (map_option (\<lambda>a. a @ [c]) ang) cs)"

definition entry_address :: "string \<times> string option \<Rightarrow> string" where
  "entry_address e = (case e of (tx, None) \<Rightarrow> trim tx | (tx, Some a) \<Rightarrow> trim a)"

definition parse_addresses :: "string \<Rightarrow> string list" where
  "parse_addresses s = filter (\<lambda>a. a \<noteq> []) (map entry_address (scan Plain [] None s))"

section \<open>Writing a list\<close>

text \<open>A plain address: non-empty, without white space, separators, quotes or
  brackets; and a list of addresses written the usual way, \<^verbatim>\<open>a, b, c\<close>.\<close>

definition plain_addr :: "string \<Rightarrow> bool" where
  "plain_addr a \<longleftrightarrow> a \<noteq> [] \<and> list_all (\<lambda>c. \<not> is_ws c \<and> c \<notin> set '',;<>'' \<and> c \<noteq> CHR 0x22) a"

fun join_addrs :: "string list \<Rightarrow> string" where
  "join_addrs [] = []"
| "join_addrs [a] = a"
| "join_addrs (a # as) = a @ '', '' @ join_addrs as"

section \<open>Properties\<close>

lemma scan_plain_append:
  "list_all (\<lambda>c. c \<notin> set '',;<>'' \<and> c \<noteq> CHR 0x22) a \<Longrightarrow>
   scan Plain tx ang (a @ cs) = scan Plain (tx @ a) ang cs"
  by (induction a arbitrary: tx) auto

lemma trim_ws_prefix:
  assumes "list_all is_ws p" and "plain_addr a"
  shows "trim (p @ a) = a"
proof -
  from assms(2) obtain c cs where a: "a = c # cs" and nc: "\<not> is_ws c"
    by (cases a) (auto simp: plain_addr_def)
  have "dropWhile is_ws (p @ a) = a"
    using assms(1) nc by (simp add: a dropWhile_append list_all_iff)
  moreover from assms(2) obtain d ds where ra: "rev a = d # ds" and nd: "\<not> is_ws d"
    by (cases "rev a") (auto simp: plain_addr_def list_all_iff dest: arg_cong [where f = set])
  ultimately show ?thesis by (simp add: trim_def)
qed

lemma scan_join:
  assumes "list_all plain_addr (a # as)" and "list_all is_ws p"
  shows "map entry_address (scan Plain p None (join_addrs (a # as))) = a # as"
  using assms
proof (induction as arbitrary: a p)
  case Nil
  then have "scan Plain p None a = [(p @ a, None)]"
    using scan_plain_append [of a p None "[]"] by (auto simp: plain_addr_def list_all_iff)
  with Nil show ?case by (simp add: entry_address_def trim_ws_prefix)
next
  case (Cons b bs)
  have pa: "list_all (\<lambda>c. c \<notin> set '',;<>'' \<and> c \<noteq> CHR 0x22) a"
    using Cons.prems(1) by (auto simp: plain_addr_def list_all_iff)
  have "scan Plain p None (join_addrs (a # b # bs)) =
          (p @ a, None) # scan Plain [CHR '' ''] None (join_addrs (b # bs))"
    using scan_plain_append [OF pa, of p None] by simp
  moreover have "map entry_address (scan Plain [CHR '' ''] None (join_addrs (b # bs))) = b # bs"
    using Cons.prems(1) by (intro Cons.IH) (simp_all add: is_ws_def)
  moreover have "entry_address (p @ a, None) = a"
    using Cons.prems by (simp add: entry_address_def trim_ws_prefix)
  ultimately show ?case by simp
qed

lemma parse_nil [simp]: "parse_addresses [] = []"
  by (simp add: parse_addresses_def entry_address_def trim_def)

text \<open>A list of plain addresses written as \<^verbatim>\<open>a, b, c\<close> reads back as those
  addresses, in order.\<close>

lemma parse_join:
  assumes "list_all plain_addr as"
  shows "parse_addresses (join_addrs as) = as"
proof (cases as)
  case Nil
  then show ?thesis by simp
next
  case (Cons a as')
  with assms have "map entry_address (scan Plain [] None (join_addrs as)) = as"
    using scan_join [of a as' "[]"] by simp
  moreover have "\<forall>x\<in>set as. x \<noteq> []" using assms by (auto simp: plain_addr_def list_all_iff)
  ultimately show ?thesis by (simp add: parse_addresses_def)
qed

lemma parse_plain: "plain_addr a \<Longrightarrow> parse_addresses a = [a]"
  using parse_join [of "[a]"] by simp

end
