(* ===== verification/Relay.thy ===== *)
theory Relay
  imports Mail Address_Parser
begin

text \<open>
  The mail relay behind \<^verbatim>\<open>transporter.sendMail\<close>. The handlers see it through
  one operation: a send takes the relay's state and a message and returns
  success or an error with the new state. The handlers' lemmas are stated for
  every relay of this type (\<open>'s relay\<close>, over any state type \<open>'s\<close>); a
  recording implementation, \<open>fake_send\<close>, stands for nodemailer with the Gmail
  service: it checks the envelope as nodemailer does (no recipient is an
  error before any connection), refuses a transporter without credentials,
  fails the attempts its script names, and records every attempt and every
  delivery.

  \<open>send_seq\<close> is the \<^verbatim>\<open>try\<close> block of both handlers: its sends are awaited one
  after the other, and the first rejected promise jumps to \<^verbatim>\<open>catch\<close>, so
  the remaining sends never start.
\<close>

section \<open>The relay interface\<close>

datatype relay_error =
    NoRecipients
  | AuthRejected
  | SmtpFailure nat

type_synonym 's relay = "'s \<Rightarrow> mail \<Rightarrow> (relay_error + unit) \<times> 's"

fun send_seq :: "'s relay \<Rightarrow> 's \<Rightarrow> mail list \<Rightarrow> (relay_error + unit) \<times> 's" where
  "send_seq send s [] = (Inr (), s)"
| "send_seq send s (m # ms) =
     (case send s m of
        (Inl err, s') \<Rightarrow> (Inl err, s')
      | (Inr _, s') \<Rightarrow> send_seq send s' ms)"

section \<open>A recording relay\<close>

text \<open>
  The addresses nodemailer takes from a \<^verbatim>\<open>to\<close> value: a string is a list of
  addresses (\<open>parse_addresses\<close>), an array contributes the addresses of each of
  its elements, an address object \<^verbatim>\<open>{name, address}\<close> its \<^verbatim>\<open>address\<close>;
  undefined and null none; another value is converted to a string.
\<close>

fun recipients :: "jsval \<Rightarrow> string list" where
  "recipients JUndef = []"
| "recipients JNull = []"
| "recipients (JStr s) = parse_addresses s"
| "recipients (JArr vs) = concat (map recipients vs)"
| "recipients (JObj kvs) =
     (case get_prop (JObj kvs) ''address'' of JStr a \<Rightarrow> filter (\<lambda>x. x \<noteq> []) [trim a] | _ \<Rightarrow> [])"
| "recipients v = parse_addresses (js_to_string v)"

record relay_state =
  attempted :: "mail list"
  delivered :: "mail list"
  failing :: "nat list"

definition fake_send :: "transport_config \<Rightarrow> relay_state relay" where
  "fake_send cfg s m =
     (let k = length (attempted s);
          s' = s\<lparr>attempted := attempted s @ [m]\<rparr>
      in if recipients (mail_to m) = [] then (Inl NoRecipients, s')
         else if auth_user cfg = None \<or> auth_pass cfg = None then (Inl AuthRejected, s')
         else if k \<in> set (failing s) then (Inl (SmtpFailure k), s')
         else (Inr (), s'\<lparr>delivered := delivered s' @ [m]\<rparr>))"

definition relay_init :: "nat list \<Rightarrow> relay_state" where
  "relay_init fs = \<lparr>attempted = [], delivered = [], failing = fs\<rparr>"

text \<open>A message the relay accepts: it has a recipient and the credentials are set.\<close>

definition deliverable :: "transport_config \<Rightarrow> mail \<Rightarrow> bool" where
  "deliverable cfg m \<longleftrightarrow> recipients (mail_to m) \<noteq> [] \<and> auth_user cfg \<noteq> None \<and> auth_pass cfg \<noteq> None"

text \<open>
  A relay wrapped so that its state also records every message handed to it,
  whatever the relay answers: the observer the spec's recording fake stands for,
  around any relay.
\<close>

definition logging :: "'s relay \<Rightarrow> ('s \<times> mail list) relay" where
  "logging send = (\<lambda>(s, log) m. (case send s m of (r, s') \<Rightarrow> (r, (s', log @ [m]))))"

section \<open>Sequential sends\<close>

text \<open>Sending a concatenation is sending the first part, then, if it succeeded, the second.\<close>

lemma send_seq_append:
  "send_seq send s (xs @ ys) =
     (case send_seq send s xs of
        (Inl err, s') \<Rightarrow> (Inl err, s')
      | (Inr _, s') \<Rightarrow> send_seq send s' ys)"
  by (induction xs arbitrary: s) (auto split: prod.splits sum.splits)

lemma send_seq_Cons_fail [simp]:
  "send s m = (Inl err, s') \<Longrightarrow> send_seq send s (m # ms) = (Inl err, s')"
  by simp

lemma send_seq_Cons_ok [simp]:
  "send s m = (Inr u, s') \<Longrightarrow> send_seq send s (m # ms) = send_seq send s' ms"
  by simp

text \<open>For every relay, wrapping it in the log changes neither the outcome nor the
  relay's state, and the messages handed over are a prefix of the list, in order
  and each once: all of them when the sends succeed, at least the failing one
  otherwise.\<close>

lemma send_seq_logging:
  "\<exists>a. send_seq (logging send) (s, log) ms =
          (fst (send_seq send s ms), (snd (send_seq send s ms), log @ a)) \<and>
        prefix a ms \<and>
        (case fst (send_seq send s ms) of Inr _ \<Rightarrow> a = ms | Inl _ \<Rightarrow> a \<noteq> [])"
proof (induction ms arbitrary: s log)
  case Nil
  then show ?case by simp
next
  case (Cons m ms)
  obtain r s1 where step: "send s m = (r, s1)" by fastforce
  show ?case
  proof (cases r)
    case (Inl err)
    with step show ?thesis by (intro exI [of _ "[m]"]) (simp add: logging_def)
  next
    case (Inr u)
    from Cons.IH [of s1 "log @ [m]"] obtain a where
      a: "send_seq (logging send) (s1, log @ [m]) ms =
            (fst (send_seq send s1 ms), (snd (send_seq send s1 ms), (log @ [m]) @ a))"
         "prefix a ms" "(case fst (send_seq send s1 ms) of Inr _ \<Rightarrow> a = ms | Inl _ \<Rightarrow> a \<noteq> [])"
      by blast
    have "send_seq (logging send) (s, log) (m # ms) = send_seq (logging send) (s1, log @ [m]) ms"
      using step Inr by (simp add: logging_def)
    with a step Inr show ?thesis
      by (intro exI [of _ "m # a"]) (auto split: sum.splits)
  qed
qed

section \<open>The recording relay\<close>

lemma fake_send_attempted:
  "attempted (snd (fake_send cfg s m)) = attempted s @ [m]"
  by (simp add: fake_send_def Let_def)

lemma fake_send_failing [simp]:
  "failing (snd (fake_send cfg s m)) = failing s"
  by (simp add: fake_send_def Let_def)

lemma fake_send_ok:
  "deliverable cfg m \<Longrightarrow> length (attempted s) \<notin> set (failing s) \<Longrightarrow>
   fake_send cfg s m = (Inr (), s\<lparr>attempted := attempted s @ [m], delivered := delivered s @ [m]\<rparr>)"
  by (auto simp: fake_send_def deliverable_def Let_def)

lemma fake_send_Inl:
  "fake_send cfg s m = (Inl err, s') \<Longrightarrow> s' = s\<lparr>attempted := attempted s @ [m]\<rparr>"
  by (auto simp: fake_send_def Let_def split: if_splits)

lemma fake_send_Inr:
  "fake_send cfg s m = (Inr u, s') \<Longrightarrow>
   s' = s\<lparr>attempted := attempted s @ [m], delivered := delivered s @ [m]\<rparr>"
  by (auto simp: fake_send_def Let_def split: if_splits)

lemma recipients_strings:
  "list_all plain_addr addrs \<Longrightarrow> recipients (JArr (map JStr addrs)) = addrs"
  by (induction addrs) (auto simp: parse_plain)

lemma recipients_admin [simp]: "parse_addresses ''vasanthkbit@gmail.com'' = [''vasanthkbit@gmail.com'']"
  by (rule parse_plain) (simp add: plain_addr_def is_ws_def)

section \<open>Sequential sends through the recording relay\<close>

lemma fake_send_seq_all_ok:
  assumes "\<forall>m\<in>set ms. deliverable cfg m"
    and "\<forall>i<length ms. length (attempted s) + i \<notin> set (failing s)"
  shows "send_seq (fake_send cfg) s ms =
           (Inr (), s\<lparr>attempted := attempted s @ ms, delivered := delivered s @ ms\<rparr>)"
  using assms
proof (induction ms arbitrary: s)
  case Nil
  then show ?case by simp
next
  case (Cons m ms)
  let ?s1 = "s\<lparr>attempted := attempted s @ [m], delivered := delivered s @ [m]\<rparr>"
  from Cons.prems have "fake_send cfg s m = (Inr (), ?s1)"
    by (intro fake_send_ok) auto
  moreover have "\<forall>i<length ms. length (attempted ?s1) + i \<notin> set (failing ?s1)"
    using Cons.prems(2) by (auto dest: spec [of _ "Suc _"])
  ultimately show ?case using Cons by simp
qed

text \<open>Two sends, the first refused by the relay: the second is never attempted.\<close>

lemma fake_send_seq2_first_fails:
  assumes "length (attempted s) \<in> set (failing s)" and "deliverable cfg m1"
  shows "send_seq (fake_send cfg) s [m1, m2] =
           (Inl (SmtpFailure (length (attempted s))), s\<lparr>attempted := attempted s @ [m1]\<rparr>)"
  using assms by (simp add: fake_send_def deliverable_def Let_def)

text \<open>Two sends without credentials: the first is refused, the second never attempted.\<close>

lemma fake_send_seq2_no_credentials:
  assumes "auth_user cfg = None" and "recipients (mail_to m1) \<noteq> []"
  shows "send_seq (fake_send cfg) s [m1, m2] = (Inl AuthRejected, s\<lparr>attempted := attempted s @ [m1]\<rparr>)"
  using assms by (simp add: fake_send_def Let_def)

text \<open>Two sends, the second refused: the first was delivered.\<close>

lemma fake_send_seq2_second_fails:
  assumes "length (attempted s) \<notin> set (failing s)" and "deliverable cfg m1"
    and "Suc (length (attempted s)) \<in> set (failing s)" and "deliverable cfg m2"
  shows "send_seq (fake_send cfg) s [m1, m2] =
           (Inl (SmtpFailure (Suc (length (attempted s)))),
            s\<lparr>attempted := attempted s @ [m1, m2], delivered := delivered s @ [m1]\<rparr>)"
  using assms by (simp add: fake_send_def deliverable_def Let_def)

text \<open>Two sends, the second without a recipient: the first was delivered.\<close>

lemma fake_send_seq2_second_no_recipient:
  assumes "length (attempted s) \<notin> set (failing s)" and "deliverable cfg m1"
    and "recipients (mail_to m2) = []"
  shows "send_seq (fake_send cfg) s [m1, m2] =
           (Inl NoRecipients,
            s\<lparr>attempted := attempted s @ [m1, m2], delivered := delivered s @ [m1]\<rparr>)"
  using assms by (simp add: fake_send_def deliverable_def Let_def)

text \<open>C11: the recording relay under sequential sends implements the dispatch
  contract: the attempts are a prefix of the messages, in order, each at most
  once; on success all were attempted and delivered, on failure the last
  attempt is the one that failed and all before it were delivered.\<close>

theorem fake_send_seq_prefix:
  assumes "send_seq (fake_send cfg) s ms = (r, s')"
  shows "\<exists>a d. attempted s' = attempted s @ a \<and> delivered s' = delivered s @ d \<and>
           failing s' = failing s \<and> prefix a ms \<and>
           (case r of Inr _ \<Rightarrow> a = ms \<and> d = ms | Inl _ \<Rightarrow> a \<noteq> [] \<and> d = butlast a)"
  using assms
proof (induction ms arbitrary: s)
  case Nil
  then show ?case by auto
next
  case (Cons m ms)
  obtain x s1 where step: "fake_send cfg s m = (x, s1)" by fastforce
  show ?case
  proof (cases x)
    case (Inl err)
    with step Cons.prems have "r = Inl err" "s' = s1" by auto
    with step Inl show ?thesis by (auto dest!: fake_send_Inl intro!: exI [of _ "[m]"])
  next
    case (Inr u)
    with step Cons.prems have "send_seq (fake_send cfg) s1 ms = (r, s')" by simp
    from Cons.IH [OF this] obtain a d where
      ad: "attempted s' = attempted s1 @ a" "delivered s' = delivered s1 @ d"
          "failing s' = failing s1" "prefix a ms"
          "(case r of Inr _ \<Rightarrow> a = ms \<and> d = ms | Inl _ \<Rightarrow> a \<noteq> [] \<and> d = butlast a)"
      by blast
    from step Inr have s1: "s1 = s\<lparr>attempted := attempted s @ [m], delivered := delivered s @ [m]\<rparr>"
      by (auto dest!: fake_send_Inr)
    show ?thesis
      using ad s1 by (intro exI [of _ "m # a"] exI [of _ "m # d"]) (auto split: sum.splits)
  qed
qed

end
