(* ===== verification/Handlers.thy ===== *)
theory Handlers
  imports Relay
begin

text \<open>
  The two route handlers of \<^verbatim>\<open>src/index.js\<close>, \<^verbatim>\<open>POST /api/contact\<close> and
  \<^verbatim>\<open>POST /api/submit-paper\<close>, for any relay. The server's state is the
  relay's state and the lines \<^verbatim>\<open>console.error\<close> has written; a handler
  returns the response it sends and the new state. Each handler is the whole
  async function: the destructuring of \<^verbatim>\<open>req.body\<close>, the guard with its
  early 400 return, the \<^verbatim>\<open>try\<close> block of two sends (\<open>send_seq\<close>), the 200
  response after it, and the \<^verbatim>\<open>catch\<close> branch that logs the error and
  answers 500.
\<close>

section \<open>Responses and server state\<close>

datatype resp_body = JsonBody jsval | TextBody string | NoBody

record response =
  status :: nat
  headers :: "(string \<times> string) list"
  resp_body :: resp_body

text \<open>\<^verbatim>\<open>res.status(code).json(v)\<close>.\<close>

definition json_response :: "nat \<Rightarrow> jsval \<Rightarrow> response" where
  "json_response code v =
     \<lparr>status = code, headers = [(''Content-Type'', ''application/json; charset=utf-8'')],
      resp_body = JsonBody v\<rparr>"

record 's server =
  relay :: 's
  console :: "(string \<times> relay_error) list"

section \<open>POST /api/contact\<close>

definition contact_handler ::
  "'s relay \<Rightarrow> env \<Rightarrow> jsval \<Rightarrow> 's server \<Rightarrow> response \<times> 's server" where
  "contact_handler send e body st =
     (let firstName = get_prop body ''firstName'';
          email = get_prop body ''email'';
          number = get_prop body ''number'';
          message = get_prop body ''message''
      in if \<not> truthy firstName \<or> \<not> truthy email \<or> \<not> truthy number \<or> \<not> truthy message
         then (json_response 400 (JObj [(''error'', JStr ''All fields are required'')]), st)
         else
           (case send_seq send (relay st)
                   [contact_admin_mail e firstName email number message,
                    contact_confirm_mail e firstName email message] of
              (Inr _, r) \<Rightarrow>
                (json_response 200 (JObj [(''message'', JStr ''Email sent successfully'')]),
                 st\<lparr>relay := r\<rparr>)
            | (Inl err, r) \<Rightarrow>
                (json_response 500 (JObj [(''error'', JStr ''Failed to send email'')]),
                 st\<lparr>relay := r, console := console st @ [(''Error sending email:'', err)]\<rparr>)))"

section \<open>POST /api/submit-paper\<close>

text \<open>\<open>file\<close> is \<^verbatim>\<open>req.file\<close>: the upload multer accepted, or none.\<close>

definition paper_handler ::
  "'s relay \<Rightarrow> env \<Rightarrow> jsval \<Rightarrow> upload option \<Rightarrow> 's server \<Rightarrow> response \<times> 's server" where
  "paper_handler send e body file st =
     (let title = get_prop body ''title'';
          email = get_prop body ''email'';
          fullName = get_prop body ''fullName'';
          institution = get_prop body ''institution'';
          category = get_prop body ''category'';
          abstract = get_prop body ''abstract''
      in case file of
           None \<Rightarrow> (json_response 400 (JObj [(''error'', JStr ''No file uploaded'')]), st)
         | Some f \<Rightarrow>
           (case send_seq send (relay st)
                   [paper_admin_mail e title email fullName institution category abstract f,
                    paper_confirm_mail e title email fullName] of
              (Inr _, r) \<Rightarrow>
                (json_response 200 (JObj [(''message'', JStr ''Paper submitted successfully'')]),
                 st\<lparr>relay := r\<rparr>)
            | (Inl err, r) \<Rightarrow>
                (json_response 500 (JObj [(''error'', JStr ''Failed to submit paper'')]),
                 st\<lparr>relay := r, console := console st @ [(''Error submitting paper:'', err)]\<rparr>)))"

section \<open>Shorthands\<close>

abbreviation contact_valid :: "jsval \<Rightarrow> bool" where
  "contact_valid body \<equiv>
     truthy (get_prop body ''firstName'') \<and> truthy (get_prop body ''email'') \<and>
     truthy (get_prop body ''number'') \<and> truthy (get_prop body ''message'')"

abbreviation contact_mails :: "env \<Rightarrow> jsval \<Rightarrow> mail list" where
  "contact_mails e body \<equiv>
     [contact_admin_mail e (get_prop body ''firstName'') (get_prop body ''email'')
        (get_prop body ''number'') (get_prop body ''message''),
      contact_confirm_mail e (get_prop body ''firstName'') (get_prop body ''email'')
        (get_prop body ''message'')]"

abbreviation paper_mails :: "env \<Rightarrow> jsval \<Rightarrow> upload \<Rightarrow> mail list" where
  "paper_mails e body f \<equiv>
     [paper_admin_mail e (get_prop body ''title'') (get_prop body ''email'')
        (get_prop body ''fullName'') (get_prop body ''institution'')
        (get_prop body ''category'') (get_prop body ''abstract'') f,
      paper_confirm_mail e (get_prop body ''title'') (get_prop body ''email'')
        (get_prop body ''fullName'')]"

lemmas handler_defs [handler_simps] = contact_handler_def paper_handler_def json_response_def

section \<open>The contact handler, for any relay\<close>

text \<open>C1: a contact request with a missing (falsy) field is answered 400 with the
  fixed message, and the state is the one before: whatever the relay, it is never
  called.\<close>

theorem contact_missing_field:
  assumes "\<not> contact_valid body"
  shows "contact_handler send e body st =
           (json_response 400 (JObj [(''error'', JStr ''All fields are required'')]), st)"
  using assms by (simp add: contact_handler_def Let_def)

lemma contact_valid_dispatch:
  assumes "contact_valid body"
  shows "contact_handler send e body st =
           (case send_seq send (relay st) (contact_mails e body) of
              (Inr _, r) \<Rightarrow>
                (json_response 200 (JObj [(''message'', JStr ''Email sent successfully'')]),
                 st\<lparr>relay := r\<rparr>)
            | (Inl err, r) \<Rightarrow>
                (json_response 500 (JObj [(''error'', JStr ''Failed to send email'')]),
                 st\<lparr>relay := r, console := console st @ [(''Error sending email:'', err)]\<rparr>))"
  using assms by (simp add: contact_handler_def Let_def)

lemma contact_mails_deliverable:
  assumes "recipients (get_prop body ''email'') \<noteq> []"
    and "EMAIL_USER e \<noteq> None" and "EMAIL_PASS e \<noteq> None"
  shows "\<forall>m\<in>set (contact_mails e body). deliverable (create_transport e) m"
  using assms by (simp add: deliverable_def create_transport_def mail_defs admin_address_def)

section \<open>The paper handler, for any relay\<close>

text \<open>C2: a paper submission without a file is answered 400 with the fixed
  message, whatever the other fields hold, and no send happens.\<close>

theorem paper_no_file:
  "paper_handler send e body None st =
     (json_response 400 (JObj [(''error'', JStr ''No file uploaded'')]), st)"
  by (simp add: paper_handler_def Let_def)

lemma paper_file_dispatch:
  "paper_handler send e body (Some f) st =
     (case send_seq send (relay st) (paper_mails e body f) of
        (Inr _, r) \<Rightarrow>
          (json_response 200 (JObj [(''message'', JStr ''Paper submitted successfully'')]),
           st\<lparr>relay := r\<rparr>)
      | (Inl err, r) \<Rightarrow>
          (json_response 500 (JObj [(''error'', JStr ''Failed to submit paper'')]),
           st\<lparr>relay := r, console := console st @ [(''Error submitting paper:'', err)]\<rparr>))"
  by (simp add: paper_handler_def Let_def)

text \<open>C9: when a send fails, the contact handler answers 500 with a fixed body
  that does not depend on the relay's error, keeps the relay's state after the
  failure, and writes the error to the console; the error text never reaches the
  client.\<close>

theorem contact_failure_logged:
  assumes "contact_valid body"
    and "send_seq send (relay st) (contact_mails e body) = (Inl err, r)"
  shows "contact_handler send e body st =
           (json_response 500 (JObj [(''error'', JStr ''Failed to send email'')]),
            st\<lparr>relay := r, console := console st @ [(''Error sending email:'', err)]\<rparr>)"
  using assms by (simp add: contact_valid_dispatch del: send_seq.simps)

text \<open>Both handlers answer with one of the statuses 200, 400 and 500, for
  every body, file and relay.\<close>

lemma handlers_status_range:
  "status (fst (contact_handler send e body st)) \<in> {200, 400, 500} \<and>
   status (fst (paper_handler send e body file st)) \<in> {200, 400, 500}"
  by (auto simp: contact_handler_def paper_handler_def json_response_def Let_def
           split: option.splits prod.splits sum.splits)

text \<open>C19: whatever the relay does, the messages the handlers hand to it are a
  prefix of the two messages of the request, admin notification first, each at
  most once; none when the request is refused; and both when the answer is 200.\<close>

theorem handlers_send_in_order:
  "(\<exists>a. snd (relay (snd (contact_handler (logging send) e body st))) = snd (relay st) @ a \<and>
        prefix a (if contact_valid body then contact_mails e body else []) \<and>
        (status (fst (contact_handler (logging send) e body st)) = 200 \<longrightarrow>
           a = contact_mails e body)) \<and>
   (\<exists>a. snd (relay (snd (paper_handler (logging send) e body upl st))) = snd (relay st) @ a \<and>
        prefix a (case upl of None \<Rightarrow> [] | Some f \<Rightarrow> paper_mails e body f) \<and>
        (status (fst (paper_handler (logging send) e body upl st)) = 200 \<longrightarrow>
           (\<exists>f. upl = Some f \<and> a = paper_mails e body f)))"
proof -
  obtain s log where rs: "relay st = (s, log)" by fastforce
  show ?thesis
  proof (intro conjI)
    show "\<exists>a. snd (relay (snd (contact_handler (logging send) e body st))) = snd (relay st) @ a \<and>
        prefix a (if contact_valid body then contact_mails e body else []) \<and>
        (status (fst (contact_handler (logging send) e body st)) = 200 \<longrightarrow>
           a = contact_mails e body)"
    proof (cases "contact_valid body")
      case True
      from send_seq_logging [of send s log "contact_mails e body"] obtain a where
        a: "send_seq (logging send) (s, log) (contact_mails e body) =
              (fst (send_seq send s (contact_mails e body)),
               (snd (send_seq send s (contact_mails e body)), log @ a))"
           "prefix a (contact_mails e body)"
           "(case fst (send_seq send s (contact_mails e body)) of Inr _ \<Rightarrow> a = contact_mails e body
              | Inl _ \<Rightarrow> a \<noteq> [])"
        by blast
      with True rs show ?thesis
        by (intro exI [of _ a])
           (auto simp: contact_valid_dispatch json_response_def simp del: send_seq.simps
                 split: sum.splits)
    next
      case False
      then show ?thesis by (simp add: contact_handler_def json_response_def Let_def)
    qed
  next
    show "\<exists>a. snd (relay (snd (paper_handler (logging send) e body upl st))) = snd (relay st) @ a \<and>
        prefix a (case upl of None \<Rightarrow> [] | Some f \<Rightarrow> paper_mails e body f) \<and>
        (status (fst (paper_handler (logging send) e body upl st)) = 200 \<longrightarrow>
           (\<exists>f. upl = Some f \<and> a = paper_mails e body f))"
    proof (cases upl)
      case (Some f)
      from send_seq_logging [of send s log "paper_mails e body f"] obtain a where
        a: "send_seq (logging send) (s, log) (paper_mails e body f) =
              (fst (send_seq send s (paper_mails e body f)),
               (snd (send_seq send s (paper_mails e body f)), log @ a))"
           "prefix a (paper_mails e body f)"
           "(case fst (send_seq send s (paper_mails e body f)) of Inr _ \<Rightarrow> a = paper_mails e body f
              | Inl _ \<Rightarrow> a \<noteq> [])"
        by blast
      with Some rs show ?thesis
        by (intro exI [of _ a])
           (auto simp: paper_file_dispatch json_response_def simp del: send_seq.simps
                 split: sum.splits)
    next
      case None
      then show ?thesis by (simp add: paper_handler_def json_response_def Let_def)
    qed
  qed
qed

lemma paper_mails_deliverable:
  assumes "recipients (get_prop body ''email'') \<noteq> []"
    and "EMAIL_USER e \<noteq> None" and "EMAIL_PASS e \<noteq> None"
  shows "\<forall>m\<in>set (paper_mails e body f). deliverable (create_transport e) m"
  using assms by (simp add: deliverable_def create_transport_def mail_defs admin_address_def)

end
