(* ===== verification/Server.thy ===== *)
theory Server
  imports Handlers
begin

text \<open>
  The Express application of \<^verbatim>\<open>src/index.js\<close> around the two handlers: the
  middleware chain \<^verbatim>\<open>app.use(cors(corsOptions))\<close>, \<^verbatim>\<open>app.use(express.json())\<close>,
  the routes \<^verbatim>\<open>app.post('/api/contact', ...)\<close> and
  \<^verbatim>\<open>app.post('/api/submit-paper', upload.single('file'), ...)\<close>, and what the
  framework does where the source says nothing: the body parser's and multer's
  errors go to Express's default error handler, an unmatched request gets the
  default 404. The libraries (cors, body-parser, multer, finalhandler) are not
  code of the repository; they are modelled from their documented behaviour
  for the options the source passes them.

  A request is its method, its path, the \<^verbatim>\<open>Origin\<close> header and its body as
  the parsers see it: JSON text (already parsed, or malformed), a multipart
  form (text fields and file parts, each with its field name), or anything
  else. \<open>app_handle\<close> is one request through the whole application.
\<close>

section \<open>Requests\<close>

datatype req_body =
    JsonText "jsval option"
  | Multipart "(string \<times> string) list" "upload list"
  | OtherBody

record request =
  req_method :: string
  path :: string
  origin :: "string option"
  payload :: req_body
  body_length :: nat
  thrown_stack :: string

datatype app_error =
    JsonSyntaxError
  | JsonNotObject
  | UnexpectedField string
  | PayloadTooLarge
  | FieldNameTooLong
  | FieldValueTooLong string

section \<open>CORS (corsOptions, lines 16 to 22)\<close>

record cors_options =
  allowed_origin :: string
  allowed_methods :: "string list"
  credentials :: bool

definition corsOptions :: cors_options where
  "corsOptions = \<lparr>allowed_origin = ''http://localhost:5173'', allowed_methods = [''GET'', ''POST''],
                  credentials = True\<rparr>"

text \<open>
  With a fixed string as origin the cors middleware writes the same
  \<^verbatim>\<open>Access-Control-Allow-Origin\<close> on every response, whatever the request's
  \<^verbatim>\<open>Origin\<close>; it answers a preflight (\<^verbatim>\<open>OPTIONS\<close>) itself with 204 and the
  allowed methods, and passes every other request on.
\<close>

definition cors_headers :: "cors_options \<Rightarrow> (string \<times> string) list" where
  "cors_headers c =
     [(''Access-Control-Allow-Origin'', allowed_origin c), (''Vary'', ''Origin'')] @
     (if credentials c then [(''Access-Control-Allow-Credentials'', ''true'')] else [])"

definition preflight_response :: "cors_options \<Rightarrow> response" where
  "preflight_response c =
     \<lparr>status = 204,
      headers = cors_headers c @
        [(''Access-Control-Allow-Methods'', join_comma (allowed_methods c)), (''Content-Length'', ''0'')],
      resp_body = NoBody\<rparr>"

section \<open>express.json() (line 23)\<close>

text \<open>
  The parser sets \<^verbatim>\<open>req.body\<close> to \<^verbatim>\<open>{}\<close> first; a JSON body replaces it if
  it parses to an object or an array (strict mode), and is a 400 error
  otherwise. Other bodies are left to later middleware.
\<close>

fun json_parser :: "req_body \<Rightarrow> app_error + jsval" where
  "json_parser (JsonText None) = Inl JsonSyntaxError"
| "json_parser (JsonText (Some (JObj kvs))) = Inr (JObj kvs)"
| "json_parser (JsonText (Some (JArr vs))) = Inr (JArr vs)"
| "json_parser (JsonText (Some v)) = Inl JsonNotObject"
| "json_parser b = Inr (JObj [])"

text \<open>
  Before parsing, the parser reads a JSON body only up to its default limit of
  100kb (102400 bytes); a longer one is the error \<^verbatim>\<open>entity.too.large\<close>,
  status 413, whether or not it would parse. Other bodies are not read here.
\<close>

definition json_limit :: nat where
  "json_limit = 102400"

definition express_json :: "request \<Rightarrow> app_error + jsval" where
  "express_json req =
     (case payload req of
        JsonText v \<Rightarrow> if json_limit < body_length req then Inl PayloadTooLarge else json_parser (payload req)
      | _ \<Rightarrow> json_parser (payload req))"

section \<open>upload.single('file') (lines 10 to 14, 89)\<close>

text \<open>
  multer's memory storage on a multipart request: the text fields become the
  new \<^verbatim>\<open>req.body\<close>, a repeated field name collecting its values in an array;
  the one file part named \<^verbatim>\<open>file\<close> becomes \<^verbatim>\<open>req.file\<close>. A file part under
  another name, or a second one under \<^verbatim>\<open>file\<close>, is the error
  \<^verbatim>\<open>Unexpected field\<close>. A request that is not multipart passes unchanged, with
  no file.
\<close>

fun add_field :: "(string \<times> jsval) list \<Rightarrow> string \<Rightarrow> string \<Rightarrow> (string \<times> jsval) list" where
  "add_field [] k v = [(k, JStr v)]"
| "add_field ((k', old) # kvs) k v =
     (if k' = k
      then (k, (case old of JArr vs \<Rightarrow> JArr (vs @ [JStr v]) | _ \<Rightarrow> JArr [old, JStr v])) # kvs
      else (k', old) # add_field kvs k v)"

definition multer_fields :: "(string \<times> string) list \<Rightarrow> jsval" where
  "multer_fields fs = JObj (foldl (\<lambda>acc (k, v). add_field acc k v) [] fs)"

fun single_file :: "string \<Rightarrow> upload list \<Rightarrow> app_error + upload option" where
  "single_file name [] = Inr None"
| "single_file name (u # us) =
     (if fieldname u \<noteq> name then Inl (UnexpectedField (fieldname u))
      else case single_file name us of
             Inl err \<Rightarrow> Inl err
           | Inr None \<Rightarrow> Inr (Some u)
           | Inr (Some _) \<Rightarrow> Inl (UnexpectedField name))"

text \<open>
  Without \<^verbatim>\<open>limits\<close> multer still passes busboy's defaults: a field name
  longer than 100 bytes is the error \<^verbatim>\<open>LIMIT_FIELD_KEY\<close>, a field value longer
  than 1MB (1048576 bytes) \<^verbatim>\<open>LIMIT_FIELD_VALUE\<close>; files and the number of parts
  are unbounded. A string is its UTF-8 bytes. The text fields are checked in the
  order of the form, before its file parts.
\<close>

definition field_name_limit :: nat where
  "field_name_limit = 100"

definition field_value_limit :: nat where
  "field_value_limit = 1048576"

fun field_error :: "(string \<times> string) list \<Rightarrow> app_error option" where
  "field_error [] = None"
| "field_error ((k, v) # fs) =
     (if field_name_limit < length k then Some FieldNameTooLong
      else if field_value_limit < length v then Some (FieldValueTooLong k)
      else field_error fs)"

definition upload_single :: "string \<Rightarrow> req_body \<Rightarrow> jsval \<Rightarrow> app_error + jsval \<times> upload option" where
  "upload_single name b parsed =
     (case b of
        Multipart fs us \<Rightarrow>
          (case field_error fs of
             Some err \<Rightarrow> Inl err
           | None \<Rightarrow>
               (case single_file name us of
                  Inl err \<Rightarrow> Inl err
                | Inr file \<Rightarrow> Inr (multer_fields fs, file)))
      | _ \<Rightarrow> Inr (parsed, None))"

section \<open>The framework's default handlers\<close>

text \<open>
  Express's final handler (finalhandler): a parser error carries its status
  (400, or 413 for a body over the limit), a multer error none, so 500. The page
  is an HTML document around the message, escaped, with each line break written
  \<^verbatim>\<open><br>\<close> and each pair of spaces \<^verbatim>\<open> &nbsp;\<close>; it is sent with a
  restrictive \<^verbatim>\<open>Content-Security-Policy\<close>, \<^verbatim>\<open>nosniff\<close>, its type and its
  length. Outside production the message is the error's stack; in production,
  or when the stack is empty, the status text. The stack is the text the
  runtime attaches to the error (its first line the error's name and message,
  then the call frames); it depends on the Node version and the installation,
  so the request carries it as \<open>thrown_stack\<close>.
\<close>

fun error_status :: "app_error \<Rightarrow> nat" where
  "error_status JsonSyntaxError = 400"
| "error_status JsonNotObject = 400"
| "error_status (UnexpectedField f) = 500"
| "error_status PayloadTooLarge = 413"
| "error_status FieldNameTooLong = 500"
| "error_status (FieldValueTooLong f) = 500"

definition status_text :: "nat \<Rightarrow> string" where
  "status_text n =
     (if n = 400 then ''Bad Request'' else if n = 413 then ''Payload Too Large'' else ''Internal Server Error'')"

definition escape_chr :: "char \<Rightarrow> string" where
  "escape_chr c =
     (if c = CHR ''&'' then ''&amp;'' else if c = CHR ''<'' then ''&lt;''
      else if c = CHR ''>'' then ''&gt;'' else if c = CHR 0x22 then ''&quot;''
      else if c = CHR 0x27 then ''&#39;'' else [c])"

fun page_text :: "string \<Rightarrow> string" where
  "page_text [] = []"
| "page_text (c # cs) =
     (if c = CHR 0x0A then ''<br>'' @ page_text cs
      else if c = CHR '' '' \<and> cs \<noteq> [] \<and> hd cs = CHR '' '' then '' &nbsp;'' @ page_text (tl cs)
      else escape_chr c @ page_text cs)"

definition error_document :: "string \<Rightarrow> string" where
  "error_document body =
     ''<!DOCTYPE html>'' @ nl @ ''<html lang='' @ dq @ ''en'' @ dq @ ''>'' @ nl @ ''<head>'' @ nl @
     ''<meta charset='' @ dq @ ''utf-8'' @ dq @ ''>'' @ nl @ ''<title>Error</title>'' @ nl @
     ''</head>'' @ nl @ ''<body>'' @ nl @ ''<pre>'' @ body @ ''</pre>'' @ nl @ ''</body>'' @ nl @
     ''</html>'' @ nl"

definition html_page :: "nat \<Rightarrow> string \<Rightarrow> response" where
  "html_page n msg =
     (let doc = error_document (page_text msg)
      in \<lparr>status = n,
          headers = [(''Content-Security-Policy'', ''default-src '' @ [CHR 0x27] @ ''none'' @ [CHR 0x27]),
                     (''X-Content-Type-Options'', ''nosniff''),
                     (''Content-Type'', ''text/html; charset=utf-8''),
                     (''Content-Length'', nat_str (length doc))],
          resp_body = TextBody doc\<rparr>)"

definition error_message :: "env \<Rightarrow> string \<Rightarrow> app_error \<Rightarrow> string" where
  "error_message e stk err =
     (if NODE_ENV e = Some ''production'' \<or> stk = [] then status_text (error_status err) else stk)"

definition error_response :: "env \<Rightarrow> string \<Rightarrow> app_error \<Rightarrow> response" where
  "error_response e stk err = html_page (error_status err) (error_message e stk err)"

text \<open>The 404 of an unmatched request: \<^verbatim>\<open>Cannot\<close>, the method and the path.\<close>

definition not_found :: "string \<Rightarrow> string \<Rightarrow> response" where
  "not_found m p = html_page 404 (''Cannot '' @ m @ '' '' @ p)"

section \<open>Routing (lines 34 and 89)\<close>

text \<open>Express matches paths case-insensitively and ignores one trailing slash.\<close>

definition lower_chr :: "char \<Rightarrow> char" where
  "lower_chr c = (if 65 \<le> (of_char c :: nat) \<and> (of_char c :: nat) \<le> 90 then char_of ((of_char c :: nat) + 32) else c)"

definition route_matches :: "string \<Rightarrow> string \<Rightarrow> bool" where
  "route_matches route p = (map lower_chr p = route \<or> map lower_chr p = route @ ''/'')"

definition app_route ::
  "'s relay \<Rightarrow> env \<Rightarrow> request \<Rightarrow> jsval \<Rightarrow> 's server \<Rightarrow> response \<times> 's server" where
  "app_route send e req parsed st =
     (if req_method req = ''POST'' \<and> route_matches ''/api/contact'' (path req)
      then contact_handler send e parsed st
      else if req_method req = ''POST'' \<and> route_matches ''/api/submit-paper'' (path req)
      then (case upload_single ''file'' (payload req) parsed of
              Inl err \<Rightarrow> (error_response e (thrown_stack req) err, st)
            | Inr (b, file) \<Rightarrow> paper_handler send e b file st)
      else (not_found (req_method req) (path req), st))"

definition with_headers :: "(string \<times> string) list \<Rightarrow> response \<times> 's server \<Rightarrow> response \<times> 's server" where
  "with_headers hs r = (case r of (resp, st) \<Rightarrow> (resp\<lparr>headers := hs @ headers resp\<rparr>, st))"

definition app_handle :: "'s relay \<Rightarrow> env \<Rightarrow> request \<Rightarrow> 's server \<Rightarrow> response \<times> 's server" where
  "app_handle send e req st =
     (if req_method req = ''OPTIONS'' then (preflight_response corsOptions, st)
      else with_headers (cors_headers corsOptions)
        (case express_json req of
           Inl err \<Rightarrow> (error_response e (thrown_stack req) err, st)
         | Inr parsed \<Rightarrow> app_route send e req parsed st))"

lemmas server_defs = app_handle_def app_route_def with_headers_def

section \<open>Well-typed responses\<close>

text \<open>
  The shapes of answer a client of the application can meet: a JSON object with
  the single string field \<^verbatim>\<open>message\<close> (status 200) or \<^verbatim>\<open>error\<close> (400 or
  500), an HTML page (400, 404, 413 or 500), or no body (204); the
  \<^verbatim>\<open>Content-Type\<close> header names the kind of body.
\<close>

fun body_wt :: "nat \<Rightarrow> resp_body \<Rightarrow> bool" where
  "body_wt n (JsonBody (JObj [(k, JStr s)])) =
     ((n = 200 \<and> k = ''message'') \<or> ((n = 400 \<or> n = 500) \<and> k = ''error''))"
| "body_wt n (JsonBody v) = False"
| "body_wt n (TextBody t) = (n = 400 \<or> n = 404 \<or> n = 413 \<or> n = 500)"
| "body_wt n NoBody = (n = 204)"

fun content_type :: "resp_body \<Rightarrow> string option" where
  "content_type (JsonBody v) = Some ''application/json; charset=utf-8''"
| "content_type (TextBody t) = Some ''text/html; charset=utf-8''"
| "content_type NoBody = None"

definition resp_wt :: "response \<Rightarrow> bool" where
  "resp_wt r \<longleftrightarrow> body_wt (status r) (resp_body r) \<and>
     map_of (headers r) ''Content-Type'' = content_type (resp_body r)"

section \<open>Properties of the application\<close>

lemma with_headers_snd [simp]: "snd (with_headers hs r) = snd r"
  by (simp add: with_headers_def split: prod.splits)

lemma with_headers_status [simp]: "status (fst (with_headers hs r)) = status (fst r)"
  by (simp add: with_headers_def split: prod.splits)

lemma with_headers_body [simp]: "resp_body (fst (with_headers hs r)) = resp_body (fst r)"
  by (simp add: with_headers_def split: prod.splits)





lemma html_page_status [simp]: "status (html_page n msg) = n"
  by (simp add: html_page_def Let_def)


text \<open>C13: a POST of a JSON object to \<^verbatim>\<open>/api/contact\<close> (in any letter case,
  with or without a trailing slash) reaches the contact handler with the parsed
  object as \<^verbatim>\<open>req.body\<close>, and its response goes out with the CORS headers.\<close>

theorem app_routes_contact:
  assumes "req_method req = ''POST''" and "route_matches ''/api/contact'' (path req)"
    and "payload req = JsonText (Some (JObj kvs))" and "body_length req \<le> json_limit"
  shows "app_handle send e req st =
           with_headers (cors_headers corsOptions) (contact_handler send e (JObj kvs) st)"
  using assms by (simp add: app_handle_def app_route_def express_json_def)

text \<open>C14: a preflight request is answered by the CORS middleware alone: 204,
  the allowed origin, methods GET and POST, credentials; no handler runs and the
  state is unchanged.\<close>

theorem preflight_no_effect:
  assumes "req_method req = ''OPTIONS''"
  shows "app_handle send e req st = (preflight_response corsOptions, st) \<and>
         status (preflight_response corsOptions) = 204 \<and>
         set [(''Access-Control-Allow-Origin'', ''http://localhost:5173''),
              (''Access-Control-Allow-Methods'', ''GET,POST''),
              (''Access-Control-Allow-Credentials'', ''true'')]
           \<subseteq> set (headers (preflight_response corsOptions))"
  using assms
  by (simp add: app_handle_def preflight_response_def cors_headers_def corsOptions_def)



text \<open>C17: a request that matches neither route (another method or path) gets
  the default 404 page and changes nothing.\<close>

theorem unmatched_request_404:
  assumes "req_method req \<noteq> ''OPTIONS''" and "express_json req = Inr b"
    and "\<not> (req_method req = ''POST'' \<and> route_matches ''/api/contact'' (path req))"
    and "\<not> (req_method req = ''POST'' \<and> route_matches ''/api/submit-paper'' (path req))"
  shows "app_handle send e req st =
           with_headers (cors_headers corsOptions) (not_found (req_method req) (path req), st)"
  using assms by (auto simp: app_handle_def app_route_def)

text \<open>C18: a POST to \<^verbatim>\<open>/api/submit-paper\<close> that is not multipart (a JSON
  body) passes multer without a file and is refused with 400 by the handler.\<close>

theorem paper_json_body_no_file:
  assumes "req_method req = ''POST''" and "route_matches ''/api/submit-paper'' (path req)"
    and "payload req = JsonText (Some (JObj kvs))" and "body_length req \<le> json_limit"
  shows "app_handle send e req st =
           with_headers (cors_headers corsOptions)
             (json_response 400 (JObj [(''error'', JStr ''No file uploaded'')]), st)"
proof -
  have "\<not> route_matches ''/api/contact'' (path req)"
    using assms(2) by (auto simp: route_matches_def)
  with assms show ?thesis
    by (simp add: app_handle_def app_route_def express_json_def upload_single_def paper_handler_def Let_def)
qed

text \<open>C23: every answer that is not a preflight, whatever its route and status
  (200, 400, 404, 500), carries the CORS headers first: the one configured
  origin, \<^verbatim>\<open>Vary: Origin\<close> and credentials allowed.\<close>

theorem cors_headers_on_every_answer:
  assumes "req_method req \<noteq> ''OPTIONS''"
  shows "prefix [(''Access-Control-Allow-Origin'', ''http://localhost:5173''), (''Vary'', ''Origin''),
                 (''Access-Control-Allow-Credentials'', ''true'')]
                (headers (fst (app_handle send e req st)))"
  using assms
  by (simp add: app_handle_def with_headers_def cors_headers_def corsOptions_def
           split: prod.splits)

section \<open>Typing of the answers\<close>

lemma contact_handler_wt: "resp_wt (fst (contact_handler send e body st))"
  by (auto simp: resp_wt_def contact_handler_def json_response_def Let_def split: prod.splits sum.splits)

lemma paper_handler_wt: "resp_wt (fst (paper_handler send e body file st))"
  by (auto simp: resp_wt_def paper_handler_def json_response_def Let_def
           split: option.splits prod.splits sum.splits)

lemma with_headers_wt:
  assumes "map_of hs ''Content-Type'' = None"
  shows "resp_wt (fst (with_headers hs r)) = resp_wt (fst r)"
  using assms by (simp add: resp_wt_def with_headers_def map_of_append map_add_def split: option.splits prod.splits)

lemma html_page_wt: "n \<in> {400, 404, 413, 500} \<Longrightarrow> resp_wt (html_page n msg)"
  by (auto simp: resp_wt_def html_page_def Let_def)

lemma error_response_wt: "resp_wt (error_response e stk err)"
  unfolding error_response_def by (rule html_page_wt) (cases err; simp)

lemma not_found_wt: "resp_wt (not_found m p)"
  unfolding not_found_def by (rule html_page_wt) simp

text \<open>C25: every answer of the application, for every request, environment and
  relay, is well typed: its body is a JSON object with one string field,
  \<^verbatim>\<open>message\<close> exactly on 200 and \<^verbatim>\<open>error\<close> on 400 and 500, or an HTML
  page with an error status, or empty on a 204 preflight; and its
  \<^verbatim>\<open>Content-Type\<close> matches the body. A client can tell success from failure
  by the status or by the field name alike.\<close>

theorem app_handle_well_typed: "resp_wt (fst (app_handle send e req st))"
proof -
  have hs: "map_of (cors_headers corsOptions) ''Content-Type'' = None"
    by (simp add: cors_headers_def corsOptions_def)
  have route: "resp_wt (fst (app_route send e req b st))" for b
    by (auto simp: app_route_def contact_handler_wt paper_handler_wt error_response_wt not_found_wt
             split: sum.splits prod.splits)
  have pre: "resp_wt (preflight_response corsOptions)"
    by (simp add: resp_wt_def preflight_response_def cors_headers_def corsOptions_def)
  show ?thesis
    by (simp add: app_handle_def with_headers_wt [OF hs] route pre error_response_wt split: sum.splits)
qed

section \<open>The body size limits\<close>


end
