(* ===== verification/Concurrency.thy ===== *)
theory Concurrency
  imports Handlers "HOL-Library.While_Combinator"
begin

text \<open>
  Requests in flight at the same time. Node runs each handler until its first
  \<^verbatim>\<open>await\<close>, and resumes it when the relay answers; meanwhile other
  requests may start or resume. All of them share the one transporter. A
  request is a job: the messages its handler will send (computed when it
  starts, after the synchronous guard), those already handed to the relay,
  those still to send, and its answer once given. A world is the relay's state
  and the jobs. \<open>world_step\<close> is one event: a request arrives (its guard runs
  at once, so a refused request is answered 400 on arrival with nothing to send),
  or one waiting job hands its next message to the relay, which answers; the
  job is answered 500 on a refusal and 200 after its last message. Which event
  comes next is not determined: any interleaving is a run.
\<close>

section \<open>Jobs and worlds\<close>

record job =
  planned :: "mail list"
  sent :: "mail list"
  todo :: "mail list"
  outcome :: "nat option"

definition new_job :: "mail list \<Rightarrow> nat option \<Rightarrow> job" where
  "new_job ms r = \<lparr>planned = ms, sent = [], todo = ms, outcome = r\<rparr>"

definition contact_job :: "env \<Rightarrow> jsval \<Rightarrow> job" where
  "contact_job e b =
     (if contact_valid b then new_job (contact_mails e b) None else new_job [] (Some 400))"

definition paper_job :: "env \<Rightarrow> jsval \<Rightarrow> upload option \<Rightarrow> job" where
  "paper_job e b u =
     (case u of None \<Rightarrow> new_job [] (Some 400) | Some f \<Rightarrow> new_job (paper_mails e b f) None)"

text \<open>The job after the relay answered its next message \<open>m\<close>.\<close>

definition advance :: "job \<Rightarrow> mail \<Rightarrow> mail list \<Rightarrow> relay_error + unit \<Rightarrow> job" where
  "advance j m ms r =
     j\<lparr>sent := sent j @ [m], todo := ms,
       outcome := (case r of Inl _ \<Rightarrow> Some 500 | Inr _ \<Rightarrow> if ms = [] then Some 200 else None)\<rparr>"

record 's world =
  wrelay :: 's
  jobs :: "job list"

inductive world_step :: "'s relay \<Rightarrow> 's world \<Rightarrow> 's world \<Rightarrow> bool" for send where
  arrive_contact: "world_step send w (w\<lparr>jobs := jobs w @ [contact_job e b]\<rparr>)"
| arrive_paper: "world_step send w (w\<lparr>jobs := jobs w @ [paper_job e b u]\<rparr>)"
| deliver: "\<lbrakk>i < length (jobs w); outcome (jobs w ! i) = None; todo (jobs w ! i) = m # ms;
             send (wrelay w) m = (r, s')\<rbrakk> \<Longrightarrow>
            world_step send w (w\<lparr>wrelay := s', jobs := (jobs w)[i := advance (jobs w ! i) m ms r]\<rparr>)"

inductive reach :: "'s relay \<Rightarrow> 's \<Rightarrow> 's world \<Rightarrow> bool" for send s0 where
  start: "reach send s0 \<lparr>wrelay = s0, jobs = []\<rparr>"
| step: "reach send s0 w \<Longrightarrow> world_step send w w' \<Longrightarrow> reach send s0 w'"

section \<open>The per-request invariant\<close>

text \<open>
  What each request has done at any moment: it has handed the relay a prefix
  of its planned messages; while it waits, the rest is still to send; a 200
  has sent all; a 400 has sent nothing.
\<close>

definition job_ok :: "job \<Rightarrow> bool" where
  "job_ok j \<longleftrightarrow>
     prefix (sent j) (planned j) \<and>
     (outcome j = None \<longrightarrow> sent j @ todo j = planned j \<and> todo j \<noteq> []) \<and>
     (outcome j = Some 200 \<longrightarrow> sent j = planned j) \<and>
     (outcome j = Some 400 \<longrightarrow> sent j = [])"

section \<open>The event loop\<close>

text \<open>
  Node's event loop with no new arrivals: while some request waits on the relay
  with messages still to send, the relay answers one of them (here the first,
  in arrival order) and that request resumes. \<open>pending\<close> counts the messages
  still to send of the requests not yet answered; each round lowers it.
\<close>

fun first_waiting :: "job list \<Rightarrow> nat option" where
  "first_waiting [] = None"
| "first_waiting (j # js) =
     (if outcome j = None \<and> todo j \<noteq> [] then Some 0 else map_option Suc (first_waiting js))"

definition loop_step :: "'s relay \<Rightarrow> 's world \<Rightarrow> 's world" where
  "loop_step send w =
     (case first_waiting (jobs w) of
        None \<Rightarrow> w
      | Some i \<Rightarrow>
          (case todo (jobs w ! i) of
             [] \<Rightarrow> w
           | m # ms \<Rightarrow>
               (case send (wrelay w) m of
                  (r, s') \<Rightarrow> w\<lparr>wrelay := s', jobs := (jobs w)[i := advance (jobs w ! i) m ms r]\<rparr>)))"

definition event_loop :: "'s relay \<Rightarrow> 's world \<Rightarrow> 's world option" where
  "event_loop send w = while_option (\<lambda>w. first_waiting (jobs w) \<noteq> None) (loop_step send) w"

definition pending :: "job list \<Rightarrow> nat" where
  "pending js = sum_list (map (\<lambda>j. if outcome j = None then length (todo j) else 0) js)"

lemma job_ok_new_contact [simp]: "job_ok (contact_job e b)"
  by (simp add: job_ok_def contact_job_def new_job_def)

lemma job_ok_new_paper [simp]: "job_ok (paper_job e b u)"
  by (simp add: job_ok_def paper_job_def new_job_def split: option.splits)

lemma job_ok_advance:
  assumes "job_ok j" and "outcome j = None" and "todo j = m # ms"
  shows "job_ok (advance j m ms r)"
proof -
  from assms have planned: "planned j = sent j @ m # ms" by (simp add: job_ok_def)
  then show ?thesis
    by (auto simp: job_ok_def advance_def split: sum.splits)
qed

lemma world_step_job_ok:
  assumes "world_step send w w'" and "\<forall>j\<in>set (jobs w). job_ok j"
  shows "\<forall>j\<in>set (jobs w'). job_ok j"
  using assms
proof (induction rule: world_step.induct)
  case (deliver i w m ms r s')
  then have "job_ok (advance (jobs w ! i) m ms r)"
    by (intro job_ok_advance) auto
  with deliver.prems show ?case
    by (auto dest!: set_update_subset_insert [THEN subsetD])
qed auto

lemma reach_job_ok: "reach send s0 w \<Longrightarrow> \<forall>j\<in>set (jobs w). job_ok j"
proof (induction rule: reach.induct)
  case (step w w')
  from step.hyps(2) step.IH show ?case by (rule world_step_job_ok)
qed simp

lemma reach_steps: "(world_step send)\<^sup>*\<^sup>* w w' \<Longrightarrow> reach send s0 w \<Longrightarrow> reach send s0 w'"
  by (induction rule: rtranclp_induct) (auto intro: reach.step)

text \<open>C22: in every reachable world, under every interleaving and every relay,
  each request has handed the relay a prefix of its own messages (admin
  notification first, each at most once); one answered 200 has sent all of them,
  one answered 400 none.\<close>

theorem reach_jobs_ok:
  assumes "reach send s0 w"
  shows "\<forall>j\<in>set (jobs w). job_ok j"
  using assms by (rule reach_job_ok)

section \<open>The event loop drains\<close>

lemma first_waiting_Some:
  "first_waiting js = Some i \<Longrightarrow> i < length js \<and> outcome (js ! i) = None \<and> todo (js ! i) \<noteq> []"
  by (induction js arbitrary: i) (auto split: if_splits)

lemma first_waiting_None:
  "first_waiting js = None \<Longrightarrow> j \<in> set js \<Longrightarrow> outcome j = None \<Longrightarrow> todo j = []"
  by (induction js) (auto split: if_splits)

lemma loop_step_progress:
  assumes "first_waiting (jobs w) = Some i"
  shows "world_step send w (loop_step send w) \<and> pending (jobs (loop_step send w)) < pending (jobs w)"
proof -
  from first_waiting_Some [OF assms] obtain m ms where
    i: "i < length (jobs w)" "outcome (jobs w ! i) = None" "todo (jobs w ! i) = m # ms"
    by (cases "todo (jobs w ! i)") auto
  obtain r s' where sm: "send (wrelay w) m = (r, s')" by fastforce
  let ?f = "\<lambda>j. if outcome j = None then length (todo j) else 0"
    and ?a = "advance (jobs w ! i) m ms r"
  have ls: "loop_step send w = w\<lparr>wrelay := s', jobs := (jobs w)[i := ?a]\<rparr>"
    using assms i sm by (simp add: loop_step_def)
  have "sum_list (map ?f ((jobs w)[i := ?a])) + ?f (jobs w ! i) = sum_list (map ?f (jobs w)) + ?f ?a"
    using i(1) by (rule sum_list_map_update)
  moreover have "?f ?a < ?f (jobs w ! i)" using i by (simp add: advance_def)
  ultimately have "pending ((jobs w)[i := ?a]) < pending (jobs w)"
    by (simp add: pending_def)
  moreover have "world_step send w (loop_step send w)"
    unfolding ls using i sm by (rule world_step.deliver)
  ultimately show ?thesis by (simp add: ls)
qed

text \<open>C26: the event loop terminates from every reachable world, whatever the
  relay answers: it reaches, by steps of the concurrent model, a world in which
  every request in flight has been answered. No request is left hanging.\<close>

theorem event_loop_drains:
  assumes "reach send s0 w"
  shows "\<exists>w'. event_loop send w = Some w' \<and> (world_step send)\<^sup>*\<^sup>* w w' \<and>
              (\<forall>j\<in>set (jobs w'). outcome j \<noteq> None)"
proof -
  let ?P = "\<lambda>w'. (world_step send)\<^sup>*\<^sup>* w w'"
  have step: "?P (loop_step send v) \<and> pending (jobs (loop_step send v)) < pending (jobs v)"
    if "?P v" and "first_waiting (jobs v) \<noteq> None" for v
  proof -
    from that(2) obtain i where "first_waiting (jobs v) = Some i" by blast
    from loop_step_progress [OF this, of send] that(1) show ?thesis
      by (blast intro: rtranclp.rtrancl_into_rtrancl)
  qed
  have "\<exists>t. while_option (\<lambda>w. first_waiting (jobs w) \<noteq> None) (loop_step send) w = Some t"
    by (rule measure_while_option_Some [where P = ?P and f = "\<lambda>w. pending (jobs w)"])
       (use step in auto)
  then obtain w' where w': "event_loop send w = Some w'" by (auto simp: event_loop_def)
  have steps: "?P w'"
    by (rule while_option_rule [where P = ?P, OF _ w' [unfolded event_loop_def]]) (use step in auto)
  have stop: "first_waiting (jobs w') = None"
    using while_option_stop [OF w' [unfolded event_loop_def]] by simp
  have "\<forall>j\<in>set (jobs w'). job_ok j" by (rule reach_job_ok [OF reach_steps [OF steps assms]])
  then have "\<forall>j\<in>set (jobs w'). outcome j \<noteq> None"
    using first_waiting_None [OF stop] by (auto simp: job_ok_def)
  with w' steps show ?thesis by blast
qed

end
