(* ===== verification/Startup.thy ===== *)
theory Startup
  imports Mail
begin

text \<open>
  Process start-up in \<^verbatim>\<open>src/index.js\<close>: \<^verbatim>\<open>dotenv.config()\<close> (line 7) fills
  the process environment from the file \<^verbatim>\<open>.env\<close>, and the last lines
  (153 to 156) choose the port \<^verbatim>\<open>process.env.PORT || 5000\<close>, start listening
  and log \<^verbatim>\<open>Server running on port ${PORT}\<close>. The environment that the
  handlers, the transporter and the error handler read is the one
  \<open>dotenv_config\<close> returns. The \<^verbatim>\<open>.env\<close> file is given as the key/value
  pairs dotenv's parser reads from it, in file order. Whether the operating
  system accepts the port is a parameter \<open>bind\<close>: a refusal is an
  \<^verbatim>\<open>'error'\<close> event of the server that the source does not handle, so the
  process stops without the log line.
\<close>

section \<open>dotenv.config() (line 7)\<close>

text \<open>
  dotenv never overrides a variable the process environment already has, even
  an empty one; of two lines of the file with the same key the last wins.
\<close>

definition dotenv_lookup :: "(string \<times> string) list \<Rightarrow> string \<Rightarrow> string option" where
  "dotenv_lookup kvs k = map_of (rev kvs) k"

definition keep_defined :: "string option \<Rightarrow> string option \<Rightarrow> string option" where
  "keep_defined v f = (case v of None \<Rightarrow> f | Some s \<Rightarrow> Some s)"

definition dotenv_config :: "env \<Rightarrow> (string \<times> string) list \<Rightarrow> env" where
  "dotenv_config pe file =
     \<lparr>EMAIL_USER = keep_defined (EMAIL_USER pe) (dotenv_lookup file ''EMAIL_USER''),
      EMAIL_PASS = keep_defined (EMAIL_PASS pe) (dotenv_lookup file ''EMAIL_PASS''),
      PORT = keep_defined (PORT pe) (dotenv_lookup file ''PORT''),
      NODE_ENV = keep_defined (NODE_ENV pe) (dotenv_lookup file ''NODE_ENV'')\<rparr>"

section \<open>The port and app.listen (lines 153 to 156)\<close>

text \<open>\<^verbatim>\<open>process.env.X\<close> is a string or undefined; \<^verbatim>\<open>a || b\<close> is \<open>a\<close> when
  \<open>a\<close> is truthy and \<open>b\<close> otherwise.\<close>

definition env_value :: "string option \<Rightarrow> jsval" where
  "env_value v = (case v of None \<Rightarrow> JUndef | Some s \<Rightarrow> JStr s)"

definition js_or :: "jsval \<Rightarrow> jsval \<Rightarrow> jsval" where
  "js_or a b = (if truthy a then a else b)"

definition PORT_value :: "env \<Rightarrow> jsval" where
  "PORT_value e = js_or (env_value (PORT e)) (JNum 5000)"

datatype start_error = ListenFailed jsval

record process =
  listening :: jsval
  stdout :: "string list"

definition start_server :: "(jsval \<Rightarrow> bool) \<Rightarrow> env \<Rightarrow> start_error + process" where
  "start_server bind e =
     (let port = PORT_value e
      in if bind port
         then Inr \<lparr>listening = port, stdout = [''Server running on port '' @ js_to_string port]\<rparr>
         else Inl (ListenFailed port))"

definition boot :: "(jsval \<Rightarrow> bool) \<Rightarrow> env \<Rightarrow> (string \<times> string) list \<Rightarrow> start_error + process" where
  "boot bind pe file = start_server bind (dotenv_config pe file)"

section \<open>Properties\<close>

lemma int_str_5000 [simp]: "int_str 5000 = ''5000''"
  by (simp add: int_str_def nat_str.simps digit_chr_def char_of_eq_iff)

lemma PORT_value_cases:
  "PORT_value e = (case PORT e of Some v \<Rightarrow> if v = [] then JNum 5000 else JStr v | None \<Rightarrow> JNum 5000)"
  by (simp add: PORT_value_def js_or_def env_value_def split: option.splits)

text \<open>C27: once the process environment defines \<^verbatim>\<open>PORT\<close>, even as the
  empty string, the \<^verbatim>\<open>.env\<close> file has no say in how the server starts; and an
  empty \<^verbatim>\<open>PORT\<close> makes it listen on the number 5000 and log that port, whatever
  \<^verbatim>\<open>.env\<close> sets.\<close>

theorem boot_port:
  assumes "PORT pe \<noteq> None"
  shows "boot bind pe kvs = boot bind pe kvs' \<and>
         (PORT pe = Some [] \<longrightarrow>
            boot bind pe kvs \<in> {Inr \<lparr>listening = JNum 5000, stdout = [''Server running on port 5000'']\<rparr>,
                                 Inl (ListenFailed (JNum 5000))})"
  using assms
  by (auto simp: boot_def start_server_def PORT_value_cases dotenv_config_def keep_defined_def
           Let_def split: option.splits)

end
