(* ===== verification/Spec2Isabelle.thy ===== *)
theory Spec2Isabelle
  imports Server Concurrency Startup
begin

text \<open>
  \<^bold>\<open>A verification development of the ICSET back end\<close> (\<^verbatim>\<open>src/index.js\<close>).

  \<^bold>\<open>The program.\<close> An Express server with two endpoints. \<^verbatim>\<open>POST /api/contact\<close>
  takes a JSON body with \<^verbatim>\<open>firstName\<close>, \<^verbatim>\<open>email\<close>, \<^verbatim>\<open>number\<close>,
  \<^verbatim>\<open>message\<close>, refuses it with 400 if one is falsy, and otherwise sends two
  mails through a nodemailer transporter, a notification to a fixed admin address
  and then a confirmation to the submitter, answering 200, or 500 if a send
  fails. \<^verbatim>\<open>POST /api/submit-paper\<close> takes a multipart form through multer
  (\<^verbatim>\<open>upload.single('file')\<close>), refuses it with 400 without a file, and
  otherwise sends the admin notification with the file attached as
  \<^verbatim>\<open>application/pdf\<close>, then a confirmation. In front of both: the cors
  middleware with one configured origin and \<^verbatim>\<open>express.json()\<close>. At start-up
  \<^verbatim>\<open>dotenv.config()\<close> loads \<^verbatim>\<open>.env\<close> into the environment and the server
  listens on \<^verbatim>\<open>process.env.PORT || 5000\<close>.

  \<^bold>\<open>Theories.\<close>
  \<^item> \<open>Prelude\<close>: byte type, the characters of the template literals (\<open>nl\<close>,
    \<open>spaces\<close>, \<open>dq\<close>), the collections \<open>render_simps\<close> and
    \<open>handler_simps\<close>, and the infix lemmas (\<open>sublist\<close>) the rendering proofs use.
  \<^item> \<open>Js_Values\<close>: the JavaScript values of a request body (\<open>jsval\<close>) and the
    three language operations the handlers apply: property lookup of the
    destructuring (\<open>get_prop\<close>), truthiness of the guards (\<open>truthy\<close>) and the
    conversion of template literals (\<open>js_to_string\<close>, with \<open>join_comma\<close> for arrays
    and \<open>int_str\<close> for numbers).
  \<^item> \<open>Mail\<close>: \<^verbatim>\<open>process.env\<close> (\<open>env\<close>), \<^verbatim>\<open>createTransport\<close>
    (\<open>create_transport\<close>), and the four \<^verbatim>\<open>sendMail\<close> option objects
    (\<open>contact_admin_mail\<close>, \<open>contact_confirm_mail\<close>, \<open>paper_admin_mail\<close>,
    \<open>paper_confirm_mail\<close>) with their HTML templates reproduced character by
    character. Lemmas: every field value occurs verbatim, unescaped, in the HTML
    (C7, C8).
  \<^item> \<open>Address_Parser\<close>: how nodemailer reads the addresses of a \<^verbatim>\<open>to\<close>
    string: \<open>scan\<close> splits it at commas and semicolons outside double quotes
    and angle brackets, \<open>entry_address\<close> takes the bracketed address of
    \<^verbatim>\<open>Name <address>\<close> or the trimmed entry, \<open>parse_addresses\<close> drops the
    empty ones. Lemma: a list written \<^verbatim>\<open>a, b, c\<close> reads back (\<open>parse_join\<close>).
  \<^item> \<open>Relay\<close>: the relay interface \<open>'s relay\<close> (a send on any state type),
    \<open>send_seq\<close> for the \<^verbatim>\<open>try\<close> block of sequential awaits, and a recording
    relay \<open>fake_send\<close> that checks recipients and credentials as nodemailer does,
    fails the attempts its script names and logs attempts and deliveries.
    \<open>recipients\<close> gives the addresses of a \<^verbatim>\<open>to\<close> value: parsed strings, arrays
    of them, address objects. Lemma: the dispatch contract of the recording relay
    (C11).
  \<^item> \<open>Handlers\<close>: \<open>contact_handler\<close> and \<open>paper_handler\<close>, each the whole
    route function, over any relay, on a server state of the relay's state and the
    \<^verbatim>\<open>console.error\<close> lines. Lemmas: refusals leave the state alone (C1, C2), a
    failed send is answered 500 with a fixed body and logged (C9), statuses are
    200, 400 or 500 (\<open>handlers_status_range\<close>), and for every relay the messages
    handed over are a prefix of the request's two, admin first (C19).
  \<^item> \<open>Server\<close>: one request through the application (\<open>app_handle\<close>): CORS
    preflight and headers, the JSON parser with its 100kb limit (\<open>express_json\<close>,
    \<open>json_limit\<close>), multer with busboy's default field limits
    (\<open>field_error\<close>), routing with Express's path matching, and finalhandler's
    error document (\<open>html_page\<close>, \<open>error_message\<close>) for errors and the 404.
    Lemmas: the body size limits (C10); routing, preflight, multer and parser
    errors, the 404 (C13 to C18); the CORS headers start every answer (C23); every
    answer is well typed: \<open>resp_wt\<close> relates status, body shape and
    \<^verbatim>\<open>Content-Type\<close> (C25).
  \<^item> \<open>Concurrency\<close>: requests in flight at once, interleaved by the event loop
    at their awaits over the shared transporter: jobs, \<open>world_step\<close> (an arrival
    or one resolved send) and \<open>reach\<close>. Lemmas: the per-request invariant holds
    in every reachable world by rule induction (C22); \<open>event_loop\<close> runs the
    waiting requests to their answers with \<open>while_option\<close> and terminates from
    every reachable world with every request answered (C26), its measure
    \<open>pending\<close> being the messages still to send, which each round lowers.
  \<^item> \<open>Startup\<close>: \<^verbatim>\<open>dotenv.config()\<close> (\<open>dotenv_config\<close>: the process
    environment wins, the file's last line of a key otherwise), the port
    \<^verbatim>\<open>process.env.PORT || 5000\<close> (\<open>PORT_value\<close>, with \<open>js_or\<close>) and
    \<^verbatim>\<open>app.listen\<close> with its log line (\<open>start_server\<close>, \<open>boot\<close>), the
    operating system's acceptance of the port a parameter. Lemma: a defined
    \<^verbatim>\<open>PORT\<close> makes \<^verbatim>\<open>.env\<close> irrelevant, an empty one gives 5000 (C27).
  \<^item> This theory: end-to-end properties with the recording relay (C3 to C6, C12,
    C20, C21, C24), the witnesses of every property with hypotheses, and
    computations on sample inputs that illustrate the findings.

  \<^bold>\<open>Correspondence.\<close> A handler's state is \<open>'s server\<close>: \<open>relay\<close> is the
  transporter's world (what the relay has seen and delivered), \<open>console\<close> the
  \<^verbatim>\<open>console.error\<close> output. \<^verbatim>\<open>res.status(c).json(v)\<close> is \<open>json_response c v\<close>.
  Each \<^verbatim>\<open>await transporter.sendMail\<close> is one call of the relay; a rejected
  promise is an \<open>Inl\<close> result and \<open>send_seq\<close> stops there, as control jumps to
  \<^verbatim>\<open>catch\<close>. The stack the runtime attaches to a parser's error depends on the
  Node version and the installation; a request carries it as \<open>thrown_stack\<close>.

  \<^bold>\<open>Not modelled.\<close> SMTP and Gmail themselves, which are outside the
  repository (the relay is an interface, with a recording implementation that
  refuses missing credentials; nodemailer also refuses empty ones); the parsing of
  JSON and multipart text (a request carries the parsed value, or the fact that it
  is malformed, and the length of its body as read, after any decompression);
  multer's nesting of bracketed field names (\<^verbatim>\<open>a[b]\<close>), and the order of
  text fields and files in the stream (fields are checked first); the URL
  encoding of the path in the 404 page; of nodemailer's address parser, the
  groups (\<^verbatim>\<open>team: a, b;\<close>), comments in parentheses, and its guess of the
  address inside an entry that has a display name but no angle brackets (the
  model takes the whole trimmed entry); JSON numbers that are not integers, and
  integers from \<open>10\<^sup>2\<^sup>1\<close> on (JavaScript writes them with an exponent) or above
  \<open>2\<^sup>5\<^sup>3\<close> (rounded by the parser), which the model prints in plain decimal;
  the \<^verbatim>\<open>Access-Control-Allow-Headers\<close> a preflight reflects; the socket
  \<^verbatim>\<open>app.listen\<close> opens, and how Node reads a port string that is not a number
  (as a pipe path); the parsing of the \<^verbatim>\<open>.env\<close> text (the model takes its
  key/value pairs). The framework is modelled as Express 4 with body-parser 1.x,
  where \<^verbatim>\<open>req.body\<close> defaults to \<^verbatim>\<open>{}\<close>. In the concurrent model a send
  and the relay's answer are one step: sends of different requests interleave,
  but not inside one relay call. There are no loops in the source; the
  recursions of the model are structural or, for \<open>nat_str\<close> and
  \<open>page_text\<close>, on a decreasing measure, so no fuel is needed. The event loop
  is \<open>while_option\<close>, whose termination C26 proves by the measure
  \<open>pending\<close>. The concurrent model has no fairness assumption: C26 shows that
  the loop serving the first waiting request ends, not that every scheduler
  answers every request.

  \<^bold>\<open>Findings.\<close> The contact guard tests truthiness, not non-empty strings
  (\<open>contact_accepts_non_strings\<close>, \<open>contact_rejects_zero_number\<close>); a paper
  without email is half sent and answered 500 (C12); the CORS policy does not
  stop other origins from triggering mails, since nothing reads the request's
  origin; a second file is answered 500, not 400 (C15); malformed JSON is
  answered 400 with the parser's stack outside production, only the status text
  in production (C16); a repeated form field is joined with commas into the
  subject (\<open>repeated_title_joined\<close>); a comma-separated string or an array of
  addresses as \<^verbatim>\<open>email\<close> makes the server mail the sender's HTML to every
  address in it (C24); an empty \<^verbatim>\<open>PORT\<close> in the process environment hides
  the one of \<^verbatim>\<open>.env\<close> and the server listens on 5000 (C27); multer has no
  \<^verbatim>\<open>limits\<close>, so a file of any size is buffered in memory, while JSON bodies
  are capped at 100kb and text fields at 1MB (C10).
\<close>

section \<open>Sample inputs\<close>

definition demo_env :: env where
  "demo_env = \<lparr>EMAIL_USER = Some ''conference@example.org'', EMAIL_PASS = Some ''app-password'',
               PORT = None, NODE_ENV = None\<rparr>"

definition demo_contact :: jsval where
  "demo_contact = JObj [(''firstName'', JStr ''Ada''), (''email'', JStr ''ada@example.org''),
                        (''number'', JStr ''5551234''), (''message'', JStr ''Hello'')]"

definition demo_paper :: jsval where
  "demo_paper = JObj [(''title'', JStr ''On Relays''), (''email'', JStr ''ada@example.org''),
                      (''fullName'', JStr ''Ada L''), (''institution'', JStr ''BIT''),
                      (''category'', JStr ''Student''), (''abstract'', JStr ''Short'')]"

definition demo_file :: upload where
  "demo_file = \<lparr>fieldname = ''file'', originalname = ''paper.pdf'', mimetype = ''application/pdf'',
                buffer = [0x25, 0x50, 0x44, 0x46]\<rparr>"

definition demo_server :: "nat list \<Rightarrow> relay_state server" where
  "demo_server fs = \<lparr>relay = relay_init fs, console = []\<rparr>"

text \<open>A contact body whose fields are present and truthy but not strings.\<close>

definition odd_contact :: jsval where
  "odd_contact = JObj [(''firstName'', JObj []), (''email'', JStr ''ada@example.org''),
                       (''number'', JNum 5551234), (''message'', JArr [])]"

definition demo_request :: "string \<Rightarrow> string \<Rightarrow> req_body \<Rightarrow> request" where
  "demo_request m p b = \<lparr>req_method = m, path = p, origin = Some ''https://elsewhere.example'', payload = b,
                          body_length = 200,
                          thrown_stack = ''SyntaxError: Unexpected token } in JSON at position 10''\<rparr>"

text \<open>A multipart form that repeats the title field.\<close>

definition repeated_title_form :: req_body where
  "repeated_title_form = Multipart [(''title'', ''A''), (''title'', ''B''), (''email'', ''ada@example.org'')]
                                   [demo_file]"

abbreviation demo_cfg :: transport_config where
  "demo_cfg \<equiv> create_transport demo_env"

lemmas demo_defs = demo_env_def demo_contact_def demo_paper_def demo_file_def demo_server_def
  relay_init_def create_transport_def odd_contact_def demo_request_def repeated_title_form_def
  parse_plain plain_addr_def is_ws_def json_limit_def

section \<open>End to end with the recording relay\<close>

abbreviation no_failure_at :: "relay_state \<Rightarrow> nat \<Rightarrow> bool" where
  "no_failure_at s i \<equiv> length (attempted s) + i \<notin> set (failing s)"

lemma contact_fake_success:
  assumes "contact_valid body"
    and "recipients (get_prop body ''email'') \<noteq> []"
    and "EMAIL_USER e \<noteq> None" and "EMAIL_PASS e \<noteq> None"
    and "no_failure_at (relay st) 0" and "no_failure_at (relay st) 1"
  shows "contact_handler (fake_send (create_transport e)) e body st =
           (json_response 200 (JObj [(''message'', JStr ''Email sent successfully'')]),
            st\<lparr>relay := relay st\<lparr>attempted := attempted (relay st) @ contact_mails e body,
                                  delivered := delivered (relay st) @ contact_mails e body\<rparr>\<rparr>)"
proof -
  have "\<forall>i<length (contact_mails e body). no_failure_at (relay st) i"
    using assms(5,6) by (auto simp: less_Suc_eq numeral_2_eq_2)
  with contact_mails_deliverable [OF assms(2-4)]
  have "send_seq (fake_send (create_transport e)) (relay st) (contact_mails e body) =
          (Inr (), relay st\<lparr>attempted := attempted (relay st) @ contact_mails e body,
                            delivered := delivered (relay st) @ contact_mails e body\<rparr>)"
    by (rule fake_send_seq_all_ok)
  with assms(1) show ?thesis
    by (simp add: contact_valid_dispatch del: send_seq.simps)
qed

text \<open>C3: a valid contact submission, with a relay that accepts both messages,
  dispatches exactly two messages in order, the notification to the fixed admin
  address and then the confirmation to the submitter's address, both subjects
  carrying the first name, and answers 200.\<close>

theorem contact_dispatches_both:
  assumes "contact_valid body"
    and "recipients (get_prop body ''email'') \<noteq> []"
    and "EMAIL_USER e \<noteq> None" and "EMAIL_PASS e \<noteq> None"
    and "no_failure_at (relay st) 0" and "no_failure_at (relay st) 1"
  shows "status (fst (contact_handler (fake_send (create_transport e)) e body st)) = 200 \<and>
         (\<exists>a c. attempted (relay (snd (contact_handler (fake_send (create_transport e)) e body st))) =
                   attempted (relay st) @ [a, c] \<and>
                 delivered (relay (snd (contact_handler (fake_send (create_transport e)) e body st))) =
                   delivered (relay st) @ [a, c] \<and>
                 mail_to a = JStr admin_address \<and> mail_to c = get_prop body ''email'' \<and>
                 subject a = ''Contact Form Submission from '' @ js_to_string (get_prop body ''firstName'') \<and>
                 subject c = ''Thank You for Contacting Us, '' @ js_to_string (get_prop body ''firstName''))"
  using contact_fake_success [OF assms] by (simp add: json_response_def mail_defs)

lemma paper_fake_success:
  assumes "recipients (get_prop body ''email'') \<noteq> []"
    and "EMAIL_USER e \<noteq> None" and "EMAIL_PASS e \<noteq> None"
    and "no_failure_at (relay st) 0" and "no_failure_at (relay st) 1"
  shows "paper_handler (fake_send (create_transport e)) e body (Some f) st =
           (json_response 200 (JObj [(''message'', JStr ''Paper submitted successfully'')]),
            st\<lparr>relay := relay st\<lparr>attempted := attempted (relay st) @ paper_mails e body f,
                                  delivered := delivered (relay st) @ paper_mails e body f\<rparr>\<rparr>)"
proof -
  have "\<forall>i<length (paper_mails e body f). no_failure_at (relay st) i"
    using assms(4,5) by (auto simp: less_Suc_eq numeral_2_eq_2)
  with paper_mails_deliverable [OF assms(1-3)]
  have "send_seq (fake_send (create_transport e)) (relay st) (paper_mails e body f) =
          (Inr (), relay st\<lparr>attempted := attempted (relay st) @ paper_mails e body f,
                            delivered := delivered (relay st) @ paper_mails e body f\<rparr>)"
    by (rule fake_send_seq_all_ok)
  then show ?thesis
    by (simp add: paper_file_dispatch del: send_seq.simps)
qed

theorem contact_missing_field_witness:
  "contact_handler (fake_send (create_transport demo_env)) demo_env
     (JObj [(''firstName'', JStr ''Ada'')]) (demo_server []) =
   (json_response 400 (JObj [(''error'', JStr ''All fields are required'')]), demo_server [])"
  using contact_missing_field [of "JObj [(''firstName'', JStr ''Ada'')]"] by simp

theorem contact_failure_logged_witness:
  "contact_handler (fake_send (create_transport demo_env)) demo_env demo_contact (demo_server [0]) =
   (json_response 500 (JObj [(''error'', JStr ''Failed to send email'')]),
    (demo_server [0])\<lparr>relay := \<lparr>attempted = [hd (contact_mails demo_env demo_contact)],
                                   delivered = [], failing = [0]\<rparr>,
                       console := [(''Error sending email:'', SmtpFailure 0)]\<rparr>)"
proof -
  have "send_seq (fake_send (create_transport demo_env)) (relay (demo_server [0]))
          (contact_mails demo_env demo_contact) =
        (Inl (SmtpFailure 0), \<lparr>attempted = [hd (contact_mails demo_env demo_contact)],
                                delivered = [], failing = [0]\<rparr>)"
    by (simp add: demo_defs fake_send_def mail_defs admin_address_def)
  from contact_failure_logged [OF _ this] show ?thesis
    by (simp add: demo_defs)
qed

theorem fake_send_seq_prefix_witness:
  "send_seq (fake_send (create_transport demo_env)) (relay_init [1])
     (contact_mails demo_env demo_contact) =
   (Inl (SmtpFailure 1), \<lparr>attempted = contact_mails demo_env demo_contact,
                           delivered = [hd (contact_mails demo_env demo_contact)], failing = [1]\<rparr>) \<and>
   (\<exists>a d. contact_mails demo_env demo_contact = [] @ a \<and>
          [hd (contact_mails demo_env demo_contact)] = [] @ d \<and> [1::nat] = [1] \<and>
          prefix a (contact_mails demo_env demo_contact) \<and> a \<noteq> [] \<and> d = butlast a)"
proof -
  have run: "send_seq (fake_send (create_transport demo_env)) (relay_init [1])
     (contact_mails demo_env demo_contact) =
   (Inl (SmtpFailure 1), \<lparr>attempted = contact_mails demo_env demo_contact,
                           delivered = [hd (contact_mails demo_env demo_contact)], failing = [1]\<rparr>)"
    by (simp add: demo_defs fake_send_def mail_defs admin_address_def)
  from fake_send_seq_prefix [OF run] show ?thesis
    using run by (simp add: relay_init_def)
qed

theorem contact_dispatches_both_witness:
  "status (fst (contact_handler (fake_send (create_transport demo_env)) demo_env demo_contact
                  (demo_server []))) = 200"
  using contact_dispatches_both [of demo_contact demo_env "demo_server []"]
  by (simp add: demo_defs)

text \<open>C4: a paper submission with a file, with a relay that accepts both
  messages, delivers the admin notification with exactly one attachment, whose
  content is the uploaded bytes, whose name is the uploaded name and whose type is
  \<^verbatim>\<open>application/pdf\<close> whatever the upload's real type, then the confirmation
  without attachment, and answers 200.\<close>

theorem paper_dispatches_attachment:
  assumes "recipients (get_prop body ''email'') \<noteq> []"
    and "EMAIL_USER e \<noteq> None" and "EMAIL_PASS e \<noteq> None"
    and "no_failure_at (relay st) 0" and "no_failure_at (relay st) 1"
  shows "status (fst (paper_handler (fake_send (create_transport e)) e body (Some f) st)) = 200 \<and>
         (\<exists>a c. delivered (relay (snd (paper_handler (fake_send (create_transport e)) e body (Some f) st))) =
                   delivered (relay st) @ [a, c] \<and>
                 mail_to a = JStr admin_address \<and> mail_to c = get_prop body ''email'' \<and>
                 attachments a = [\<lparr>filename = originalname f, content = buffer f,
                                   contentType = ''application/pdf''\<rparr>] \<and>
                 attachments c = [])"
  using paper_fake_success [OF assms, of f] by (simp add: json_response_def mail_defs)

theorem paper_dispatches_attachment_witness:
  "status (fst (paper_handler (fake_send (create_transport demo_env)) demo_env demo_paper
                  (Some demo_file) (demo_server []))) = 200"
  using paper_dispatches_attachment [of demo_paper demo_env "demo_server []" demo_file]
  by (simp add: demo_defs)

text \<open>C5: if the relay fails the admin notification, the confirmation is never
  attempted, nothing is delivered, the failure is logged and the answer is 500.\<close>

theorem contact_admin_failure:
  assumes "contact_valid body"
    and "EMAIL_USER e \<noteq> None" and "EMAIL_PASS e \<noteq> None"
    and "length (attempted (relay st)) \<in> set (failing (relay st))"
  shows "contact_handler (fake_send (create_transport e)) e body st =
           (json_response 500 (JObj [(''error'', JStr ''Failed to send email'')]),
            st\<lparr>relay := relay st\<lparr>attempted := attempted (relay st) @ [hd (contact_mails e body)]\<rparr>,
               console := console st @
                 [(''Error sending email:'', SmtpFailure (length (attempted (relay st))))]\<rparr>)"
proof -
  have "deliverable (create_transport e) (hd (contact_mails e body))"
    using assms(2,3)
    by (simp add: deliverable_def create_transport_def mail_defs admin_address_def)
  with assms(4) have "send_seq (fake_send (create_transport e)) (relay st) (contact_mails e body) =
      (Inl (SmtpFailure (length (attempted (relay st)))),
       relay st\<lparr>attempted := attempted (relay st) @ [hd (contact_mails e body)]\<rparr>)"
    by (simp only: list.sel fake_send_seq2_first_fails)
  with assms(1) show ?thesis
    by (simp add: contact_valid_dispatch del: send_seq.simps)
qed

theorem contact_admin_failure_witness:
  "fst (contact_handler (fake_send (create_transport demo_env)) demo_env demo_contact
          (demo_server [0])) =
   json_response 500 (JObj [(''error'', JStr ''Failed to send email'')])"
  using contact_admin_failure [of demo_contact demo_env "demo_server [0]"]
  by (simp add: demo_defs)

text \<open>C6: if the relay accepts the admin notification and fails the
  confirmation, the answer is still 500, though the administrator was notified.\<close>

theorem contact_confirm_failure:
  assumes "contact_valid body"
    and "recipients (get_prop body ''email'') \<noteq> []"
    and "EMAIL_USER e \<noteq> None" and "EMAIL_PASS e \<noteq> None"
    and "no_failure_at (relay st) 0" and "\<not> no_failure_at (relay st) 1"
  shows "status (fst (contact_handler (fake_send (create_transport e)) e body st)) = 500 \<and>
         delivered (relay (snd (contact_handler (fake_send (create_transport e)) e body st))) =
           delivered (relay st) @ [hd (contact_mails e body)] \<and>
         attempted (relay (snd (contact_handler (fake_send (create_transport e)) e body st))) =
           attempted (relay st) @ contact_mails e body"
proof -
  have "\<forall>m\<in>set (contact_mails e body). deliverable (create_transport e) m"
    using assms(2-4) by (rule contact_mails_deliverable)
  with assms(5,6) have "send_seq (fake_send (create_transport e)) (relay st) (contact_mails e body) =
      (Inl (SmtpFailure (Suc (length (attempted (relay st))))),
       relay st\<lparr>attempted := attempted (relay st) @ contact_mails e body,
                 delivered := delivered (relay st) @ [hd (contact_mails e body)]\<rparr>)"
    by (simp del: send_seq.simps add: fake_send_seq2_second_fails)
  with assms(1) show ?thesis
    by (simp add: contact_valid_dispatch json_response_def del: send_seq.simps)
qed

theorem contact_confirm_failure_witness:
  "status (fst (contact_handler (fake_send (create_transport demo_env)) demo_env demo_contact
                  (demo_server [1]))) = 500"
  using contact_confirm_failure [of demo_contact demo_env "demo_server [1]"]
  by (simp add: demo_defs)

text \<open>The guard tests truthiness, not that the fields are non-empty
  strings: an object as first name and an empty array as message pass it, the
  request is answered 200, and the administrator receives the subject
  \<^verbatim>\<open>Contact Form Submission from [object Object]\<close> and an empty message.\<close>

lemma contact_accepts_non_strings:
  "status (fst (contact_handler (fake_send (create_transport demo_env)) demo_env odd_contact
                  (demo_server []))) = 200 \<and>
   subject (hd (delivered (relay (snd (contact_handler (fake_send (create_transport demo_env))
                  demo_env odd_contact (demo_server [])))))) =
     ''Contact Form Submission from [object Object]'' \<and>
   sublist (''<p><strong>Message:</strong> </p>'')
     (html (hd (delivered (relay (snd (contact_handler (fake_send (create_transport demo_env))
                  demo_env odd_contact (demo_server [])))))))"
proof -
  let ?run = "contact_handler (fake_send (create_transport demo_env)) demo_env odd_contact
                (demo_server [])"
  have run: "?run =
           (json_response 200 (JObj [(''message'', JStr ''Email sent successfully'')]),
            (demo_server [])\<lparr>relay := relay (demo_server [])\<lparr>
               attempted := attempted (relay (demo_server [])) @ contact_mails demo_env odd_contact,
               delivered := delivered (relay (demo_server [])) @ contact_mails demo_env odd_contact\<rparr>\<rparr>)"
    by (rule contact_fake_success) (simp_all add: demo_defs)
  have "sublist (''<p><strong>Message:</strong> '' @ js_to_string (JArr []) @ ''</p>'')
          (contact_admin_html (JObj []) (JStr ''ada@example.org'') (JNum 5551234) (JArr []))"
    by (rule contact_admin_html_message_line)
  then show ?thesis
    unfolding run by (simp add: demo_defs json_response_def mail_defs)
qed

text \<open>A phone number sent as the JSON number 0 is falsy, so a request that
  carries all four fields is still refused as if one were missing.\<close>

lemma contact_rejects_zero_number:
  "contact_handler send e
     (JObj [(''firstName'', JStr ''Ada''), (''email'', JStr ''ada@example.org''),
            (''number'', JNum 0), (''message'', JStr ''Hello'')]) st =
   (json_response 400 (JObj [(''error'', JStr ''All fields are required'')]), st)"
  by (simp add: contact_handler_def Let_def)

text \<open>C12: a paper submission with a file but no email field is answered 500,
  yet the administrator has already received the paper: the confirmation has no
  recipient, and the relay refuses it after the notification was delivered.\<close>

theorem paper_missing_email_half_sent:
  assumes "get_prop body ''email'' = JUndef"
    and "EMAIL_USER e \<noteq> None" and "EMAIL_PASS e \<noteq> None"
    and "no_failure_at (relay st) 0"
  shows "paper_handler (fake_send (create_transport e)) e body (Some f) st =
           (json_response 500 (JObj [(''error'', JStr ''Failed to submit paper'')]),
            st\<lparr>relay := relay st\<lparr>attempted := attempted (relay st) @ paper_mails e body f,
                                  delivered := delivered (relay st) @ [hd (paper_mails e body f)]\<rparr>,
               console := console st @ [(''Error submitting paper:'', NoRecipients)]\<rparr>)"
proof -
  have "deliverable (create_transport e) (hd (paper_mails e body f))"
    using assms(2,3)
    by (simp add: deliverable_def create_transport_def mail_defs admin_address_def)
  moreover have "recipients (mail_to (last (paper_mails e body f))) = []"
    using assms(1) by (simp add: mail_defs)
  ultimately have "send_seq (fake_send (create_transport e)) (relay st) (paper_mails e body f) =
      (Inl NoRecipients,
       relay st\<lparr>attempted := attempted (relay st) @ paper_mails e body f,
                 delivered := delivered (relay st) @ [hd (paper_mails e body f)]\<rparr>)"
    using assms(4) by (simp del: send_seq.simps add: fake_send_seq2_second_no_recipient)
  then show ?thesis
    by (simp add: paper_file_dispatch del: send_seq.simps)
qed

theorem paper_missing_email_half_sent_witness:
  "status (fst (paper_handler (fake_send (create_transport demo_env)) demo_env
                  (JObj [(''title'', JStr ''On Relays'')]) (Some demo_file) (demo_server []))) = 500"
  using paper_missing_email_half_sent [of "JObj [(''title'', JStr ''On Relays'')]" demo_env
          "demo_server []" demo_file]
  by (simp add: demo_defs json_response_def)

section \<open>Witnesses of the application's properties\<close>

theorem app_routes_contact_witness:
  "app_handle (fake_send (create_transport demo_env)) demo_env
     (demo_request ''POST'' ''/api/Contact/'' (JsonText (Some (JObj [(''firstName'', JStr ''Ada'')]))))
     (demo_server []) =
   with_headers (cors_headers corsOptions)
     (contact_handler (fake_send (create_transport demo_env)) demo_env
        (JObj [(''firstName'', JStr ''Ada'')]) (demo_server []))"
  by (rule app_routes_contact)
     (simp_all add: demo_request_def json_limit_def express_json_def route_matches_def lower_chr_def char_of_eq_iff)

theorem preflight_no_effect_witness:
  "app_handle (fake_send (create_transport demo_env)) demo_env
     (demo_request ''OPTIONS'' ''/api/contact'' OtherBody) (demo_server []) =
   (preflight_response corsOptions, demo_server [])"
  by (rule preflight_no_effect [THEN conjunct1]) (simp add: demo_request_def json_limit_def express_json_def)



theorem unmatched_request_404_witness:
  "app_handle (fake_send (create_transport demo_env)) demo_env
     (demo_request ''GET'' ''/api/contact'' OtherBody) (demo_server []) =
   with_headers (cors_headers corsOptions) (not_found ''GET'' ''/api/contact'', demo_server [])"
proof -
  have "app_handle (fake_send (create_transport demo_env)) demo_env
          (demo_request ''GET'' ''/api/contact'' OtherBody) (demo_server []) =
        with_headers (cors_headers corsOptions)
          (not_found (req_method (demo_request ''GET'' ''/api/contact'' OtherBody))
                     (path (demo_request ''GET'' ''/api/contact'' OtherBody)), demo_server [])"
    by (rule unmatched_request_404 [where b = "JObj []"]) (simp_all add: demo_request_def json_limit_def express_json_def)
  then show ?thesis by (simp add: demo_request_def json_limit_def express_json_def)
qed

theorem paper_json_body_no_file_witness:
  "app_handle (fake_send (create_transport demo_env)) demo_env
     (demo_request ''POST'' ''/api/submit-paper'' (JsonText (Some (JObj [])))) (demo_server []) =
   with_headers (cors_headers corsOptions)
     (json_response 400 (JObj [(''error'', JStr ''No file uploaded'')]), demo_server [])"
  by (rule paper_json_body_no_file [where kvs = "[]"])
     (simp_all add: demo_request_def json_limit_def express_json_def route_matches_def lower_chr_def char_of_eq_iff)

theorem handlers_send_in_order_witness:
  "status (fst (contact_handler (logging (fake_send (create_transport demo_env))) demo_env
     demo_contact \<lparr>relay = (relay_init [], []), console = []\<rparr>)) = 200 \<and>
   (\<exists>a. snd (relay (snd (contact_handler (logging (fake_send (create_transport demo_env))) demo_env
          demo_contact \<lparr>relay = (relay_init [], []), console = []\<rparr>))) = [] @ a \<and>
        prefix a (contact_mails demo_env demo_contact) \<and> a = contact_mails demo_env demo_contact)"
proof -
  have ok: "status (fst (contact_handler (logging (fake_send (create_transport demo_env))) demo_env
     demo_contact \<lparr>relay = (relay_init [], []), console = []\<rparr>)) = 200"
    by (simp add: contact_handler_def Let_def logging_def fake_send_def demo_defs mail_defs
                  admin_address_def json_response_def)
  have valid: "contact_valid demo_contact" by (simp add: demo_contact_def)
  from handlers_send_in_order [of "fake_send (create_transport demo_env)" demo_env demo_contact
         "\<lparr>relay = (relay_init [], []), console = []\<rparr>" None] ok valid
  show ?thesis by auto
qed

section \<open>More end-to-end properties\<close>

text \<open>C20: without credentials in the environment every valid contact request
  is answered 500: the relay refuses the admin notification, the confirmation is
  not attempted, and the refusal is logged.\<close>

theorem contact_without_credentials:
  assumes "contact_valid body" and "EMAIL_USER e = None"
  shows "contact_handler (fake_send (create_transport e)) e body st =
           (json_response 500 (JObj [(''error'', JStr ''Failed to send email'')]),
            st\<lparr>relay := relay st\<lparr>attempted := attempted (relay st) @ [hd (contact_mails e body)]\<rparr>,
               console := console st @ [(''Error sending email:'', AuthRejected)]\<rparr>)"
proof -
  have "auth_user (create_transport e) = None" using assms(2) by (simp add: create_transport_def)
  moreover have "recipients (mail_to (hd (contact_mails e body))) \<noteq> []"
    by (simp add: mail_defs admin_address_def)
  ultimately have "send_seq (fake_send (create_transport e)) (relay st) (contact_mails e body) =
      (Inl AuthRejected, relay st\<lparr>attempted := attempted (relay st) @ [hd (contact_mails e body)]\<rparr>)"
    by (simp del: send_seq.simps add: fake_send_seq2_no_credentials)
  with assms(1) show ?thesis
    by (simp add: contact_valid_dispatch del: send_seq.simps)
qed

theorem contact_without_credentials_witness:
  "fst (contact_handler (fake_send (create_transport (demo_env\<lparr>EMAIL_USER := None\<rparr>)))
          (demo_env\<lparr>EMAIL_USER := None\<rparr>) demo_contact (demo_server [])) =
   json_response 500 (JObj [(''error'', JStr ''Failed to send email'')])"
  using contact_without_credentials [of demo_contact "demo_env\<lparr>EMAIL_USER := None\<rparr>" "demo_server []"]
  by (simp add: demo_contact_def)

text \<open>C21: if the relay fails the paper's admin notification, the confirmation
  is never attempted, nothing is delivered and the answer is 500.\<close>

theorem paper_admin_failure:
  assumes "EMAIL_USER e \<noteq> None" and "EMAIL_PASS e \<noteq> None"
    and "length (attempted (relay st)) \<in> set (failing (relay st))"
  shows "paper_handler (fake_send (create_transport e)) e body (Some f) st =
           (json_response 500 (JObj [(''error'', JStr ''Failed to submit paper'')]),
            st\<lparr>relay := relay st\<lparr>attempted := attempted (relay st) @ [hd (paper_mails e body f)]\<rparr>,
               console := console st @
                 [(''Error submitting paper:'', SmtpFailure (length (attempted (relay st))))]\<rparr>)"
proof -
  have "deliverable (create_transport e) (hd (paper_mails e body f))"
    using assms(1,2)
    by (simp add: deliverable_def create_transport_def mail_defs admin_address_def)
  with assms(3) have "send_seq (fake_send (create_transport e)) (relay st) (paper_mails e body f) =
      (Inl (SmtpFailure (length (attempted (relay st)))),
       relay st\<lparr>attempted := attempted (relay st) @ [hd (paper_mails e body f)]\<rparr>)"
    by (simp only: list.sel fake_send_seq2_first_fails)
  then show ?thesis
    by (simp add: paper_file_dispatch del: send_seq.simps)
qed

theorem paper_admin_failure_witness:
  "fst (paper_handler (fake_send (create_transport demo_env)) demo_env demo_paper (Some demo_file)
          (demo_server [0])) =
   json_response 500 (JObj [(''error'', JStr ''Failed to submit paper'')])"
  using paper_admin_failure [of demo_env "demo_server [0]" demo_paper demo_file]
  by (simp add: demo_defs)

text \<open>Multer collects a repeated form field into an array, and the
  template literal joins it with commas: a form with the title given twice, A and
  B, is accepted and the administrator's subject reads
  \<^verbatim>\<open>Paper Submission: A,B\<close>.\<close>

lemma repeated_title_joined:
  "status (fst (app_handle (fake_send (create_transport demo_env)) demo_env
      (demo_request ''POST'' ''/api/submit-paper'' repeated_title_form) (demo_server []))) = 200 \<and>
   subject (hd (delivered (relay (snd (app_handle (fake_send (create_transport demo_env)) demo_env
      (demo_request ''POST'' ''/api/submit-paper'' repeated_title_form) (demo_server [])))))) =
     ''Paper Submission: A,B''"
proof -
  let ?body = "JObj [(''title'', JArr [JStr ''A'', JStr ''B'']), (''email'', JStr ''ada@example.org'')]"
  have fields: "multer_fields [(''title'', ''A''), (''title'', ''B''), (''email'', ''ada@example.org'')] = ?body"
    by (simp add: multer_fields_def)
  have route: "app_handle (fake_send (create_transport demo_env)) demo_env
      (demo_request ''POST'' ''/api/submit-paper'' repeated_title_form) (demo_server []) =
    with_headers (cors_headers corsOptions)
      (paper_handler (fake_send (create_transport demo_env)) demo_env ?body (Some demo_file)
        (demo_server []))"
    unfolding fields [symmetric]
    by (simp add: app_handle_def app_route_def express_json_def demo_request_def repeated_title_form_def
                  upload_single_def route_matches_def lower_chr_def char_of_eq_iff demo_file_def
                  field_name_limit_def field_value_limit_def)
  have run: "paper_handler (fake_send (create_transport demo_env)) demo_env ?body (Some demo_file)
        (demo_server []) =
      (json_response 200 (JObj [(''message'', JStr ''Paper submitted successfully'')]),
       (demo_server [])\<lparr>relay := relay (demo_server [])\<lparr>
          attempted := attempted (relay (demo_server [])) @ paper_mails demo_env ?body demo_file,
          delivered := delivered (relay (demo_server [])) @ paper_mails demo_env ?body demo_file\<rparr>\<rparr>)"
    by (rule paper_fake_success) (simp_all add: demo_defs)
  show ?thesis
    unfolding route run by (simp add: demo_defs json_response_def mail_defs)
qed

theorem reach_jobs_ok_witness:
  "reach (fake_send (create_transport demo_env)) (relay_init [])
     \<lparr>wrelay = relay_init [], jobs = [contact_job demo_env demo_contact]\<rparr> \<and>
   prefix (sent (contact_job demo_env demo_contact)) (planned (contact_job demo_env demo_contact))"
proof -
  have r: "reach (fake_send (create_transport demo_env)) (relay_init [])
     \<lparr>wrelay = relay_init [], jobs = [contact_job demo_env demo_contact]\<rparr>"
    using reach.step [OF reach.start world_step.arrive_contact [of _ "\<lparr>wrelay = relay_init [], jobs = []\<rparr>"]]
    by simp
  from reach_jobs_ok [OF r] have "job_ok (contact_job demo_env demo_contact)" by simp
  with r show ?thesis by (simp add: job_ok_def)
qed

section \<open>Recipients of the confirmation\<close>

text \<open>C24: the confirmation goes to whatever the request's \<^verbatim>\<open>email\<close> holds:
  a comma-separated string of addresses, or an array of them (truthy, so it
  passes the guard), makes the relay deliver the confirmation, with the sender's
  message in it, to every address of the list.\<close>

theorem contact_confirmation_to_list:
  assumes "truthy (get_prop body ''firstName'')" and "truthy (get_prop body ''number'')"
    and "truthy (get_prop body ''message'')"
    and "get_prop body ''email'' = JStr (join_addrs addrs) \<or> get_prop body ''email'' = JArr (map JStr addrs)"
    and "addrs \<noteq> []" and "list_all plain_addr addrs"
    and "EMAIL_USER e \<noteq> None" and "EMAIL_PASS e \<noteq> None"
    and "no_failure_at (relay st) 0" and "no_failure_at (relay st) 1"
  shows "status (fst (contact_handler (fake_send (create_transport e)) e body st)) = 200 \<and>
         recipients (mail_to (last (delivered (relay (snd
           (contact_handler (fake_send (create_transport e)) e body st)))))) = addrs \<and>
         html (last (delivered (relay (snd (contact_handler (fake_send (create_transport e)) e body st))))) =
           contact_confirm_html (get_prop body ''firstName'') (get_prop body ''message'')"
proof -
  have rcp: "recipients (get_prop body ''email'') = addrs"
    using assms(4) parse_join [OF assms(6)] recipients_strings [OF assms(6)] by auto
  have "truthy (get_prop body ''email'')"
    using assms(4)
  proof
    assume "get_prop body ''email'' = JStr (join_addrs addrs)"
    moreover have "join_addrs addrs \<noteq> []"
      using parse_join [OF assms(6)] assms(5) by (metis parse_nil)
    ultimately show ?thesis by simp
  qed simp
  with assms(1-3) have "contact_valid body" by simp
  moreover have "recipients (get_prop body ''email'') \<noteq> []" using rcp assms(5) by simp
  ultimately have run: "contact_handler (fake_send (create_transport e)) e body st =
           (json_response 200 (JObj [(''message'', JStr ''Email sent successfully'')]),
            st\<lparr>relay := relay st\<lparr>attempted := attempted (relay st) @ contact_mails e body,
                                  delivered := delivered (relay st) @ contact_mails e body\<rparr>\<rparr>)"
    using assms(7-10) by (rule contact_fake_success)
  show ?thesis
    unfolding run using rcp by (simp add: json_response_def mail_defs)
qed

theorem contact_confirmation_to_list_witness:
  "recipients (mail_to (last (delivered (relay (snd
     (contact_handler (fake_send (create_transport demo_env)) demo_env
        (JObj [(''firstName'', JStr ''Ada''), (''email'', JStr ''a@x.org, b@y.org''),
               (''number'', JStr ''1''), (''message'', JStr ''<a href=x>win</a>'')])
        (demo_server []))))))) = [''a@x.org'', ''b@y.org'']"
  using contact_confirmation_to_list [of
      "JObj [(''firstName'', JStr ''Ada''), (''email'', JStr ''a@x.org, b@y.org''),
             (''number'', JStr ''1''), (''message'', JStr ''<a href=x>win</a>'')]"
      "[''a@x.org'', ''b@y.org'']" demo_env "demo_server []"]
  by (simp add: demo_defs)

section \<open>Further witnesses\<close>

theorem cors_headers_on_every_answer_witness:
  "prefix [(''Access-Control-Allow-Origin'', ''http://localhost:5173''), (''Vary'', ''Origin''),
           (''Access-Control-Allow-Credentials'', ''true'')]
     (headers (fst (app_handle (fake_send demo_cfg) demo_env
        (demo_request ''GET'' ''/anything'' OtherBody) (demo_server []))))"
  by (rule cors_headers_on_every_answer) (simp add: demo_request_def json_limit_def express_json_def)


theorem boot_port_witness:
  "boot (\<lambda>p. True) (demo_env\<lparr>PORT := Some []\<rparr>) [(''PORT'', ''8080'')] =
   Inr \<lparr>listening = JNum 5000, stdout = [''Server running on port 5000'']\<rparr>"
proof -
  have "PORT (demo_env\<lparr>PORT := Some []\<rparr>) \<noteq> None" by simp
  from boot_port [OF this, where bind = "\<lambda>p. True" and kvs = "[(''PORT'', ''8080'')]" and kvs' = "[]"]
  show ?thesis by (auto simp: boot_def start_server_def PORT_value_def js_or_def env_value_def Let_def)
qed

theorem event_loop_drains_witness:
  "\<exists>w'. event_loop (fake_send demo_cfg)
          \<lparr>wrelay = relay_init [], jobs = [contact_job demo_env demo_contact]\<rparr> = Some w' \<and>
        list_all (\<lambda>j. outcome j \<noteq> None) (jobs w')"
proof -
  have r: "reach (fake_send demo_cfg) (relay_init [])
     \<lparr>wrelay = relay_init [], jobs = [contact_job demo_env demo_contact]\<rparr>"
    using reach.step [OF reach.start world_step.arrive_contact [of _ "\<lparr>wrelay = relay_init [], jobs = []\<rparr>"]]
    by simp
  from event_loop_drains [OF r] show ?thesis by (auto simp: list_all_iff)
qed

end
